theory Spec2Isabelle
  imports
    Main
    "HOL-Library.Multiset"
    "HOL-Library.Stream"
    "HOL-Library.Char_ord"
    "HOL-Library.List_Lexorder"
    "HOL-Library.Product_Lexorder"
begin

section \<open>Entity model (models.py)\<close>

text \<open>
  The Python classes carry their own \<open>__eq__\<close> and \<open>__hash__\<close>: a time slot is
  identified by (day, period), every other entity by its id. The records keep all fields
  and the identity of each class is a separate predicate, used wherever the code
  compares with \<open>==\<close> or looks an object up in a set or a dictionary.
\<close>

record time_slot =
  day :: string
  period :: int
  start_time :: string
  end_time :: string

record room =
  room_id :: string
  room_name :: string
  capacity :: int
  room_type :: string

record teacher =
  teacher_id :: string
  teacher_name :: string
  teacher_department :: string
  specializations :: "string list"
  unavailable_slots :: "time_slot list"

record course =
  course_id :: string
  course_name :: string
  course_department :: string
  hours_per_week :: int
  course_type :: string

record student_section =
  section_id :: string
  section_name :: string
  section_department :: string
  semester :: int
  student_count :: int

record class_assignment =
  a_course :: course
  a_section :: student_section
  a_teacher :: teacher
  a_room :: room
  a_time_slot :: time_slot

definition time_slot_eq :: "time_slot \<Rightarrow> time_slot \<Rightarrow> bool" where
  "time_slot_eq s other = (day s = day other \<and> period s = period other)"

definition room_eq :: "room \<Rightarrow> room \<Rightarrow> bool" where
  "room_eq r other = (room_id r = room_id other)"

definition teacher_eq :: "teacher \<Rightarrow> teacher \<Rightarrow> bool" where
  "teacher_eq t other = (teacher_id t = teacher_id other)"

definition course_eq :: "course \<Rightarrow> course \<Rightarrow> bool" where
  "course_eq c other = (course_id c = course_id other)"

definition section_eq :: "student_section \<Rightarrow> student_section \<Rightarrow> bool" where
  "section_eq s other = (section_id s = section_id other)"

text \<open>
  \<open>Teacher.is_available\<close>: \<open>time_slot not in self.unavailable_slots\<close>. The set is kept
  as the list of slots added to it; membership is decided by \<open>TimeSlot.__eq__\<close>.
\<close>

definition is_available :: "teacher \<Rightarrow> time_slot \<Rightarrow> bool" where
  "is_available t s = (\<not> list_ex (\<lambda>u. time_slot_eq u s) (unavailable_slots t))"

subsection \<open>String conversions used in messages\<close>

definition digit_char :: "nat \<Rightarrow> char" where
  "digit_char d = ''0123456789'' ! d"

fun str_nat :: "nat \<Rightarrow> string" where
  "str_nat n =
     (if n < 10 then [digit_char n]
      else str_nat (n div 10) @ [digit_char (n mod 10)])"

declare str_nat.simps [simp del]

definition str_int :: "int \<Rightarrow> string" where
  "str_int i = (if i < 0 then CHR ''-'' # str_nat (nat (- i)) else str_nat (nat i))"

text \<open>\<open>TimeSlot.__str__\<close>\<close>

definition str_time_slot :: "time_slot \<Rightarrow> string" where
  "str_time_slot s =
     day s @ '' Period '' @ str_int (period s) @ '' ('' @ start_time s @ ''-'' @ end_time s @ '')''"

section \<open>Constraint validator (constraints.py)\<close>

text \<open>
  \<open>self.conflicts\<close> is the list every check appends to; each check takes it and
  returns it extended.
\<close>

definition teacher_conflict_msg :: "class_assignment \<Rightarrow> string" where
  "teacher_conflict_msg a =
     ''Teacher conflict: '' @ teacher_name (a_teacher a) @ '' is already scheduled at ''
       @ str_time_slot (a_time_slot a)"

definition room_conflict_msg :: "class_assignment \<Rightarrow> string" where
  "room_conflict_msg a =
     ''Room conflict: '' @ room_name (a_room a) @ '' is already occupied at ''
       @ str_time_slot (a_time_slot a)"

definition section_conflict_msg :: "class_assignment \<Rightarrow> string" where
  "section_conflict_msg a =
     ''Section conflict: '' @ section_name (a_section a) @ '' already has a class at ''
       @ str_time_slot (a_time_slot a)"

definition capacity_conflict_msg :: "class_assignment \<Rightarrow> string" where
  "capacity_conflict_msg a =
     ''Capacity conflict: Room '' @ room_name (a_room a)
       @ '' (capacity: '' @ str_int (capacity (a_room a)) @ '') is too small for section ''
       @ section_name (a_section a)
       @ '' (students: '' @ str_int (student_count (a_section a)) @ '')''"

definition availability_conflict_msg :: "class_assignment \<Rightarrow> string" where
  "availability_conflict_msg a =
     ''Availability conflict: '' @ teacher_name (a_teacher a) @ '' is not available at ''
       @ str_time_slot (a_time_slot a)"

definition room_type_conflict_msg :: "class_assignment \<Rightarrow> string" where
  "room_type_conflict_msg a =
     ''Room type conflict: Course '' @ course_name (a_course a) @ '' requires a lab but ''
       @ room_name (a_room a) @ '' is a '' @ room_type (a_room a)"

definition teacher_clash :: "class_assignment \<Rightarrow> class_assignment \<Rightarrow> bool" where
  "teacher_clash existing a =
     (teacher_eq (a_teacher existing) (a_teacher a)
      \<and> time_slot_eq (a_time_slot existing) (a_time_slot a))"

definition room_clash :: "class_assignment \<Rightarrow> class_assignment \<Rightarrow> bool" where
  "room_clash existing a =
     (room_eq (a_room existing) (a_room a)
      \<and> time_slot_eq (a_time_slot existing) (a_time_slot a))"

definition section_clash :: "class_assignment \<Rightarrow> class_assignment \<Rightarrow> bool" where
  "section_clash existing a =
     (section_eq (a_section existing) (a_section a)
      \<and> time_slot_eq (a_time_slot existing) (a_time_slot a))"

definition check_teacher_conflict ::
  "class_assignment \<Rightarrow> class_assignment list \<Rightarrow> string list \<Rightarrow> string list" where
  "check_teacher_conflict a existing_assignments conflicts =
     fold (\<lambda>existing cs. if teacher_clash existing a then cs @ [teacher_conflict_msg a] else cs)
       existing_assignments conflicts"

definition check_room_conflict ::
  "class_assignment \<Rightarrow> class_assignment list \<Rightarrow> string list \<Rightarrow> string list" where
  "check_room_conflict a existing_assignments conflicts =
     fold (\<lambda>existing cs. if room_clash existing a then cs @ [room_conflict_msg a] else cs)
       existing_assignments conflicts"

definition check_section_conflict ::
  "class_assignment \<Rightarrow> class_assignment list \<Rightarrow> string list \<Rightarrow> string list" where
  "check_section_conflict a existing_assignments conflicts =
     fold (\<lambda>existing cs. if section_clash existing a then cs @ [section_conflict_msg a] else cs)
       existing_assignments conflicts"

definition check_room_capacity :: "class_assignment \<Rightarrow> string list \<Rightarrow> string list" where
  "check_room_capacity a conflicts =
     (if capacity (a_room a) < student_count (a_section a)
      then conflicts @ [capacity_conflict_msg a] else conflicts)"

definition check_teacher_availability :: "class_assignment \<Rightarrow> string list \<Rightarrow> string list" where
  "check_teacher_availability a conflicts =
     (if \<not> is_available (a_teacher a) (a_time_slot a)
      then conflicts @ [availability_conflict_msg a] else conflicts)"

definition check_room_type_compatibility :: "class_assignment \<Rightarrow> string list \<Rightarrow> string list" where
  "check_room_type_compatibility a conflicts =
     (if course_type (a_course a) = ''lab'' \<and> room_type (a_room a) \<noteq> ''lab''
      then conflicts @ [room_type_conflict_msg a] else conflicts)"

definition validate_assignment ::
  "class_assignment \<Rightarrow> class_assignment list \<Rightarrow> bool \<times> string list" where
  "validate_assignment a existing_assignments =
     (let conflicts = [];
          conflicts = check_teacher_conflict a existing_assignments conflicts;
          conflicts = check_room_conflict a existing_assignments conflicts;
          conflicts = check_section_conflict a existing_assignments conflicts;
          conflicts = check_room_capacity a conflicts;
          conflicts = check_teacher_availability a conflicts;
          conflicts = check_room_type_compatibility a conflicts
      in (length conflicts = 0, conflicts))"

section \<open>Conflict detector (constraints.py)\<close>

text \<open>
  The report is a dictionary of six lists. The three double-booking lists hold entries with
  the resource's name (key \<open>teacher\<close>, \<open>room\<close> or \<open>section\<close>), the slot as text, and the
  two course names.
\<close>

record booking_conflict =
  bc_resource :: string
  bc_time_slot :: string
  bc_courses :: "string list"

record capacity_issue =
  ci_room :: string
  ci_capacity :: int
  ci_section :: string
  ci_student_count :: int
  ci_time_slot :: string

record availability_issue =
  ai_teacher :: string
  ai_time_slot :: string

record room_type_issue =
  ri_course :: string
  ri_room :: string
  ri_room_type :: string
  ri_required_type :: string

record conflict_report =
  teacher_conflicts :: "booking_conflict list"
  room_conflicts :: "booking_conflict list"
  section_conflicts :: "booking_conflict list"
  capacity_issues :: "capacity_issue list"
  availability_issues :: "availability_issue list"
  room_type_issues :: "room_type_issue list"

text \<open>
  The lookup dictionaries are keyed by objects whose hash and equality are those of the
  id (teacher, room, section) and of (day, period) (time slot), so the keys of the maps
  are these values.
\<close>

type_synonym slot_key = "string \<times> int"

type_synonym schedule = "string \<rightharpoonup> (slot_key \<rightharpoonup> class_assignment)"

definition slot_key :: "time_slot \<Rightarrow> slot_key" where
  "slot_key s = (day s, period s)"

text \<open>
  One of the three tracking blocks of the loop body, for the resource with id \<open>rid\<close> and
  display name \<open>rname\<close>: create the inner dictionary when the resource is new, record a
  conflict when the slot is occupied, then store the assignment under the slot.
\<close>

definition track ::
  "string \<Rightarrow> string \<Rightarrow> class_assignment \<Rightarrow> schedule \<Rightarrow> booking_conflict list
     \<Rightarrow> schedule \<times> booking_conflict list" where
  "track rid rname a sched found =
     (let key = slot_key (a_time_slot a);
          sched = (if sched rid = None then sched(rid \<mapsto> Map.empty) else sched);
          slots = the (sched rid);
          found = (case slots key of
                     None \<Rightarrow> found
                   | Some occupant \<Rightarrow>
                       found @ [\<lparr>bc_resource = rname,
                                 bc_time_slot = str_time_slot (a_time_slot a),
                                 bc_courses = [course_name (a_course occupant),
                                               course_name (a_course a)]\<rparr>])
      in (sched(rid \<mapsto> slots(key \<mapsto> a)), found))"

record detector_state =
  conflicts :: conflict_report
  teacher_schedule :: schedule
  room_schedule :: schedule
  section_schedule :: schedule

definition detect_step :: "class_assignment \<Rightarrow> detector_state \<Rightarrow> detector_state" where
  "detect_step a d =
     (let c = conflicts d;
          (ts, tc) = track (teacher_id (a_teacher a)) (teacher_name (a_teacher a)) a
                       (teacher_schedule d) (teacher_conflicts c);
          (rs, rc) = track (room_id (a_room a)) (room_name (a_room a)) a
                       (room_schedule d) (room_conflicts c);
          (ss, sc) = track (section_id (a_section a)) (section_name (a_section a)) a
                       (section_schedule d) (section_conflicts c);
          cap = (if capacity (a_room a) < student_count (a_section a)
                 then capacity_issues c @
                        [\<lparr>ci_room = room_name (a_room a),
                          ci_capacity = capacity (a_room a),
                          ci_section = section_name (a_section a),
                          ci_student_count = student_count (a_section a),
                          ci_time_slot = str_time_slot (a_time_slot a)\<rparr>]
                 else capacity_issues c);
          av = (if \<not> is_available (a_teacher a) (a_time_slot a)
                then availability_issues c @
                       [\<lparr>ai_teacher = teacher_name (a_teacher a),
                         ai_time_slot = str_time_slot (a_time_slot a)\<rparr>]
                else availability_issues c);
          rt = (if course_type (a_course a) = ''lab'' \<and> room_type (a_room a) \<noteq> ''lab''
                then room_type_issues c @
                       [\<lparr>ri_course = course_name (a_course a),
                         ri_room = room_name (a_room a),
                         ri_room_type = room_type (a_room a),
                         ri_required_type = ''lab''\<rparr>]
                else room_type_issues c)
      in \<lparr>conflicts = \<lparr>teacher_conflicts = tc, room_conflicts = rc, section_conflicts = sc,
                        capacity_issues = cap, availability_issues = av,
                        room_type_issues = rt\<rparr>,
          teacher_schedule = ts, room_schedule = rs, section_schedule = ss\<rparr>)"

definition detector_init :: detector_state where
  "detector_init =
     \<lparr>conflicts = \<lparr>teacher_conflicts = [], room_conflicts = [], section_conflicts = [],
                    capacity_issues = [], availability_issues = [], room_type_issues = []\<rparr>,
      teacher_schedule = Map.empty, room_schedule = Map.empty, section_schedule = Map.empty\<rparr>"

definition find_all_conflicts :: "class_assignment list \<Rightarrow> conflict_report" where
  "find_all_conflicts assignments = conflicts (fold detect_step assignments detector_init)"

definition count_conflicts :: "conflict_report \<Rightarrow> nat" where
  "count_conflicts c =
     length (teacher_conflicts c) + length (room_conflicts c) + length (section_conflicts c)
       + length (capacity_issues c) + length (availability_issues c)
       + length (room_type_issues c)"

section \<open>Configuration (config.py)\<close>

text \<open>
  Of the configuration only the fields read by \<open>get_all_time_slots\<close> take part in
  scheduling: the weekday names, the number of periods and the period table.
\<close>

record timetable_config =
  days :: "string list"
  periods_per_day :: int
  time_slots :: "int \<rightharpoonup> string \<times> string"

definition get_all_time_slots :: "timetable_config \<Rightarrow> time_slot list" where
  "get_all_time_slots config =
     concat (map (\<lambda>d.
       concat (map (\<lambda>p. case time_slots config p of
                            None \<Rightarrow> []
                          | Some (start, end) \<Rightarrow>
                              [\<lparr>day = d, period = p, start_time = start, end_time = end\<rparr>])
                   [1..periods_per_day config]))
       (days config))"

section \<open>Pseudo-random source\<close>

text \<open>
  \<open>random.shuffle\<close> belongs to the Python standard library, not to this repository. It is
  the Fisher-Yates loop
  \<^verbatim>\<open>for i in reversed(range(1, len(x))): j = randbelow(i + 1); x[i], x[j] = x[j], x[i]\<close>
  over the module's global generator. The generator state is the stream of raw draws it
  is going to deliver; \<open>randbelow n\<close> reduces the next draw below \<open>n\<close>.
\<close>

type_synonym rng = "nat stream"

definition randbelow :: "nat \<Rightarrow> rng \<Rightarrow> nat \<times> rng" where
  "randbelow n g = (shd g mod n, stl g)"

fun shuffle_loop :: "nat list \<Rightarrow> 'a list \<Rightarrow> rng \<Rightarrow> 'a list \<times> rng" where
  "shuffle_loop [] x g = (x, g)"
| "shuffle_loop (i # is) x g =
     (let (j, g) = randbelow (i + 1) g
      in shuffle_loop is (x[i := x ! j, j := x ! i]) g)"

definition shuffle :: "'a list \<Rightarrow> rng \<Rightarrow> 'a list \<times> rng" where
  "shuffle x g = shuffle_loop (rev [1..<length x]) x g"

section \<open>Timetable generator (generator.py)\<close>

record request =
  req_course :: course
  req_section :: student_section
  req_teacher :: teacher
  req_instance :: int

record generator_state =
  assignments :: "class_assignment list"
  attempts :: int
  backtracks :: int
  conflicts_resolved :: int
  rng_state :: rng

subsection \<open>Request building and prioritisation\<close>

text \<open>
  The course-assignment dictionary is iterated in insertion order: it is the list of its
  items. The three lookup dictionaries are built by comprehension, so a later object
  with the same id replaces an earlier one. Printed lines are collected in a list.
\<close>

type_synonym course_assignments = "((string \<times> string) \<times> string) list"

definition course_dict :: "course list \<Rightarrow> (string \<rightharpoonup> course)" where
  "course_dict courses = fold (\<lambda>c m. m(course_id c \<mapsto> c)) courses Map.empty"

definition section_dict :: "student_section list \<Rightarrow> (string \<rightharpoonup> student_section)" where
  "section_dict sections = fold (\<lambda>s m. m(section_id s \<mapsto> s)) sections Map.empty"

definition teacher_dict :: "teacher list \<Rightarrow> (string \<rightharpoonup> teacher)" where
  "teacher_dict teachers = fold (\<lambda>t m. m(teacher_id t \<mapsto> t)) teachers Map.empty"

definition build_entry ::
  "(string \<rightharpoonup> course) \<Rightarrow> (string \<rightharpoonup> student_section) \<Rightarrow> (string \<rightharpoonup> teacher)
     \<Rightarrow> (string \<times> string) \<times> string \<Rightarrow> request list \<times> string list
     \<Rightarrow> request list \<times> string list" where
  "build_entry cd sd td entry acc =
     (case (entry, acc) of (((cid, sid), tid), (requests, printed)) \<Rightarrow>
        if cd cid = None then
          (requests, printed @ [''Warning: Course '' @ cid @ '' not found''])
        else if sd sid = None then
          (requests, printed @ [''Warning: Section '' @ sid @ '' not found''])
        else if td tid = None then
          (requests, printed @ [''Warning: Teacher '' @ tid @ '' not found''])
        else
          (let c = the (cd cid); s = the (sd sid); t = the (td tid)
           in (fold (\<lambda>i rs. rs @ [\<lparr>req_course = c, req_section = s, req_teacher = t,
                                     req_instance = i + 1\<rparr>])
                 [0..hours_per_week c - 1] requests,
               printed)))"

definition build_scheduling_requests ::
  "course list \<Rightarrow> student_section list \<Rightarrow> teacher list \<Rightarrow> course_assignments
     \<Rightarrow> request list \<times> string list" where
  "build_scheduling_requests courses sections teachers course_assignments =
     fold (build_entry (course_dict courses) (section_dict sections) (teacher_dict teachers))
       course_assignments ([], [])"

definition priority_key :: "request \<Rightarrow> int \<times> int \<times> string" where
  "priority_key req =
     (let lab_priority = (if course_type (req_course req) = ''lab'' then 0 else 1);
          hours_priority = hours_per_week (req_course req);
          dept_priority = section_department (req_section req)
      in (lab_priority, - hours_priority, dept_priority))"

definition prioritize_requests :: "request list \<Rightarrow> request list" where
  "prioritize_requests requests = sort_key priority_key requests"

subsection \<open>Candidate generation\<close>

definition filter_suitable_rooms :: "course \<Rightarrow> student_section \<Rightarrow> room list \<Rightarrow> room list" where
  "filter_suitable_rooms c s rooms =
     (let suitable =
            filter (\<lambda>r. \<not> capacity r < student_count s
                        \<and> \<not> (course_type c = ''lab'' \<and> room_type r \<noteq> ''lab'')) rooms
      in sort_key (\<lambda>r. capacity r - student_count s) suitable)"

definition filter_available_slots :: "teacher \<Rightarrow> time_slot list \<Rightarrow> time_slot list" where
  "filter_available_slots t all_slots = filter (\<lambda>slot. is_available t slot) all_slots"

definition get_possible_assignments ::
  "request \<Rightarrow> room list \<Rightarrow> time_slot list \<Rightarrow> rng \<Rightarrow> class_assignment list \<times> rng" where
  "get_possible_assignments req rooms all_slots g =
     (let c = req_course req; s = req_section req; t = req_teacher req;
          suitable_rooms = filter_suitable_rooms c s rooms;
          available_slots = filter_available_slots t all_slots;
          candidates =
            concat (map (\<lambda>r. map (\<lambda>slot.
                \<lparr>a_course = c, a_section = s, a_teacher = t, a_room = r, a_time_slot = slot\<rparr>)
              available_slots) suitable_rooms)
      in shuffle candidates g)"

subsection \<open>Backtracking search\<close>

text \<open>
  \<open>backtrack_schedule\<close> is the recursive method; \<open>try_assignments\<close> is its \<open>for\<close> loop
  over the candidates still to be tried at this index. The committed list, the
  statistics and the generator travel in the state. \<open>self.assignments.pop()\<close> removes
  the last element; it is only reached after a commit, so the list is not empty there.
  The depth of the recursion is the number of requests; the interpreter's limit on it
  is not part of the model.
\<close>

function backtrack_schedule ::
    "request list \<Rightarrow> nat \<Rightarrow> room list \<Rightarrow> time_slot list \<Rightarrow> int \<Rightarrow> generator_state
       \<Rightarrow> bool \<times> generator_state"
  and try_assignments ::
    "request list \<Rightarrow> nat \<Rightarrow> room list \<Rightarrow> time_slot list \<Rightarrow> int \<Rightarrow> class_assignment list
       \<Rightarrow> generator_state \<Rightarrow> bool \<times> generator_state"
where
  "backtrack_schedule requests index rooms all_slots max_attempts st =
     (if index \<ge> length requests then (True, st)
      else if attempts st \<ge> max_attempts then (False, st)
      else
        try_assignments requests index rooms all_slots max_attempts
          (fst (get_possible_assignments (requests ! index) rooms all_slots (rng_state st)))
          (st\<lparr>attempts := attempts st + 1,
              rng_state := snd (get_possible_assignments (requests ! index) rooms all_slots
                                  (rng_state st))\<rparr>))"
| "try_assignments requests index rooms all_slots max_attempts [] st = (False, st)"
| "try_assignments requests index rooms all_slots max_attempts (a # rest) st =
     (if fst (validate_assignment a (assignments st)) then
        (let r = backtrack_schedule requests (index + 1) rooms all_slots max_attempts
                   (st\<lparr>assignments := assignments st @ [a]\<rparr>)
         in if fst r then (True, snd r)
            else try_assignments requests index rooms all_slots max_attempts rest
                   ((snd r)\<lparr>assignments := butlast (assignments (snd r)),
                            backtracks := backtracks (snd r) + 1\<rparr>))
      else try_assignments requests index rooms all_slots max_attempts rest st)"
  by pat_completeness auto
termination
  by (relation "inv_image (less_than <*lex*> less_than <*lex*> less_than)
        (\<lambda>x. case x of
           Inl (requests, index, rooms, all_slots, max_attempts, st) \<Rightarrow>
             (if index \<ge> length requests then (0, 0, 0) else (length requests - index, 1, 0))
         | Inr (requests, index, rooms, all_slots, max_attempts, cands, st) \<Rightarrow>
             (length requests - index, 0, Suc (length cands)))")
     (auto split: if_splits)

text \<open>
  The request indices visited by a call, in order: one entry for every execution of
  \<open>self.generation_stats['attempts'] += 1\<close>, in the call itself and in every call below
  it, whether the branch is kept or undone. It follows the recursion of the search and
  reads the states from it.
\<close>

function backtrack_visits ::
    "request list \<Rightarrow> nat \<Rightarrow> room list \<Rightarrow> time_slot list \<Rightarrow> int \<Rightarrow> generator_state
       \<Rightarrow> nat list"
  and try_visits ::
    "request list \<Rightarrow> nat \<Rightarrow> room list \<Rightarrow> time_slot list \<Rightarrow> int \<Rightarrow> class_assignment list
       \<Rightarrow> generator_state \<Rightarrow> nat list"
where
  "backtrack_visits requests index rooms all_slots max_attempts st =
     (if index \<ge> length requests then []
      else if attempts st \<ge> max_attempts then []
      else
        index #
        try_visits requests index rooms all_slots max_attempts
          (fst (get_possible_assignments (requests ! index) rooms all_slots (rng_state st)))
          (st\<lparr>attempts := attempts st + 1,
              rng_state := snd (get_possible_assignments (requests ! index) rooms all_slots
                                  (rng_state st))\<rparr>))"
| "try_visits requests index rooms all_slots max_attempts [] st = []"
| "try_visits requests index rooms all_slots max_attempts (a # rest) st =
     (if fst (validate_assignment a (assignments st)) then
        (let r = backtrack_schedule requests (index + 1) rooms all_slots max_attempts
                   (st\<lparr>assignments := assignments st @ [a]\<rparr>)
         in backtrack_visits requests (index + 1) rooms all_slots max_attempts
              (st\<lparr>assignments := assignments st @ [a]\<rparr>)
            @ (if fst r then []
               else try_visits requests index rooms all_slots max_attempts rest
                      ((snd r)\<lparr>assignments := butlast (assignments (snd r)),
                               backtracks := backtracks (snd r) + 1\<rparr>)))
      else try_visits requests index rooms all_slots max_attempts rest st)"
  by pat_completeness auto
termination
  by (relation "inv_image (less_than <*lex*> less_than <*lex*> less_than)
        (\<lambda>x. case x of
           Inl (requests, index, rooms, all_slots, max_attempts, st) \<Rightarrow>
             (if index \<ge> length requests then (0, 0, 0) else (length requests - index, 1, 0))
         | Inr (requests, index, rooms, all_slots, max_attempts, cands, st) \<Rightarrow>
             (length requests - index, 0, Suc (length cands)))")
     (auto split: if_splits)

definition schedule_requests ::
  "request list \<Rightarrow> room list \<Rightarrow> time_slot list \<Rightarrow> int \<Rightarrow> generator_state
     \<Rightarrow> bool \<times> generator_state" where
  "schedule_requests requests rooms all_slots max_attempts st =
     backtrack_schedule requests 0 rooms all_slots max_attempts st"

text \<open>
  \<open>generate\<close> resets the committed list and the statistics, builds and orders the
  requests and runs the search with the default budget of 10000. It returns the
  committed list, or \<open>None\<close>; the final state and the printed warnings are returned
  beside it. The audit that \<open>generate\<close> runs after a success only prints its count and
  does not change the result.
\<close>

definition initial_state :: "rng \<Rightarrow> generator_state" where
  "initial_state g =
     \<lparr>assignments = [], attempts = 0, backtracks = 0, conflicts_resolved = 0, rng_state = g\<rparr>"

definition generate ::
  "timetable_config \<Rightarrow> course list \<Rightarrow> student_section list \<Rightarrow> teacher list \<Rightarrow> room list
     \<Rightarrow> course_assignments \<Rightarrow> rng
     \<Rightarrow> class_assignment list option \<times> generator_state \<times> string list" where
  "generate config courses sections teachers rooms course_assignments g =
     (let st = initial_state g;
          built = build_scheduling_requests courses sections teachers course_assignments;
          requests = prioritize_requests (fst built);
          all_slots = get_all_time_slots config;
          r = schedule_requests requests rooms all_slots 10000 st
      in if fst r then (Some (assignments (snd r)), snd r, snd built)
         else (None, snd r, snd built))"

section \<open>Seeding in the command-line entry point (main.py)\<close>

text \<open>
  \<open>main\<close> seeds the global generator before generating:
  \<^verbatim>\<open>if args.seed: random.seed(args.seed)\<close>, where \<open>args.seed\<close> is \<open>None\<close> when the option is
  absent. \<open>random.seed\<close> is the library's function from a seed to a generator state
  (\<open>seed_fn\<close>); \<open>ambient\<close> is the state the generator has when it is not seeded, which the
  interpreter draws from the operating system at start-up.
\<close>

definition seeded_rng :: "(int \<Rightarrow> rng) \<Rightarrow> rng \<Rightarrow> int option \<Rightarrow> rng" where
  "seeded_rng seed_fn ambient seed =
     (case seed of
        None \<Rightarrow> ambient
      | Some s \<Rightarrow> if s \<noteq> 0 then seed_fn s else ambient)"

definition main_generate ::
  "(int \<Rightarrow> rng) \<Rightarrow> rng \<Rightarrow> int option \<Rightarrow> timetable_config \<Rightarrow> course list
     \<Rightarrow> student_section list \<Rightarrow> teacher list \<Rightarrow> room list \<Rightarrow> course_assignments
     \<Rightarrow> class_assignment list option" where
  "main_generate seed_fn ambient seed config courses sections teachers rooms course_assignments =
     fst (generate config courses sections teachers rooms course_assignments
            (seeded_rng seed_fn ambient seed))"

section \<open>Reference formulations\<close>

text \<open>
  What one call of the validator reports, written without the accumulator: one message
  per clashing committed assignment for each of the three double-booking checks, then at
  most one message for each of capacity, availability and room type, in this order.
\<close>

definition violations_of :: "class_assignment \<Rightarrow> class_assignment list \<Rightarrow> string list" where
  "violations_of a L =
     replicate (length (filter (\<lambda>e. teacher_clash e a) L)) (teacher_conflict_msg a)
     @ replicate (length (filter (\<lambda>e. room_clash e a) L)) (room_conflict_msg a)
     @ replicate (length (filter (\<lambda>e. section_clash e a) L)) (section_conflict_msg a)
     @ (if capacity (a_room a) < student_count (a_section a) then [capacity_conflict_msg a] else [])
     @ (if \<not> is_available (a_teacher a) (a_time_slot a) then [availability_conflict_msg a] else [])
     @ (if course_type (a_course a) = ''lab'' \<and> room_type (a_room a) \<noteq> ''lab''
        then [room_type_conflict_msg a] else [])"

text \<open>The room filter of candidate generation, and the candidate built from a room and a slot.\<close>

definition suitable_room :: "course \<Rightarrow> student_section \<Rightarrow> room \<Rightarrow> bool" where
  "suitable_room c s r =
     (student_count s \<le> capacity r \<and> (course_type c = ''lab'' \<longrightarrow> room_type r = ''lab''))"

definition candidate_of :: "request \<Rightarrow> room \<Rightarrow> time_slot \<Rightarrow> class_assignment" where
  "candidate_of req r slot =
     \<lparr>a_course = req_course req, a_section = req_section req, a_teacher = req_teacher req,
      a_room = r, a_time_slot = slot\<rparr>"

text \<open>
  Request building, entry by entry. An id resolves when some object of the collection
  carries it; the object found is the last one with that id, as in the lookup
  dictionaries. A resolved entry stands for the requests with instances
  \<open>1..hours_per_week\<close>; an unresolved one for one warning line, naming the first id that
  fails in the order course, section, teacher.
\<close>

definition lookup_course :: "course list \<Rightarrow> string \<Rightarrow> course option" where
  "lookup_course courses cid = find (\<lambda>c. course_id c = cid) (rev courses)"

definition lookup_section :: "student_section list \<Rightarrow> string \<Rightarrow> student_section option" where
  "lookup_section sections sid = find (\<lambda>s. section_id s = sid) (rev sections)"

definition lookup_teacher :: "teacher list \<Rightarrow> string \<Rightarrow> teacher option" where
  "lookup_teacher teachers tid = find (\<lambda>t. teacher_id t = tid) (rev teachers)"

definition resolves ::
  "course list \<Rightarrow> student_section list \<Rightarrow> teacher list \<Rightarrow> (string \<times> string) \<times> string \<Rightarrow> bool" where
  "resolves courses sections teachers entry =
     (list_ex (\<lambda>c. course_id c = fst (fst entry)) courses
      \<and> list_ex (\<lambda>s. section_id s = snd (fst entry)) sections
      \<and> list_ex (\<lambda>t. teacher_id t = snd entry) teachers)"

definition entry_requests ::
  "course list \<Rightarrow> student_section list \<Rightarrow> teacher list \<Rightarrow> (string \<times> string) \<times> string
     \<Rightarrow> request list" where
  "entry_requests courses sections teachers entry =
     (case (lookup_course courses (fst (fst entry)),
            lookup_section sections (snd (fst entry)),
            lookup_teacher teachers (snd entry)) of
        (Some c, Some s, Some t) \<Rightarrow>
          map (\<lambda>i. \<lparr>req_course = c, req_section = s, req_teacher = t, req_instance = i\<rparr>)
            [1..hours_per_week c]
      | _ \<Rightarrow> [])"

definition entry_warnings ::
  "course list \<Rightarrow> student_section list \<Rightarrow> teacher list \<Rightarrow> (string \<times> string) \<times> string
     \<Rightarrow> string list" where
  "entry_warnings courses sections teachers entry =
     (if \<not> list_ex (\<lambda>c. course_id c = fst (fst entry)) courses
        then [''Warning: Course '' @ fst (fst entry) @ '' not found'']
      else if \<not> list_ex (\<lambda>s. section_id s = snd (fst entry)) sections
        then [''Warning: Section '' @ snd (fst entry) @ '' not found'']
      else if \<not> list_ex (\<lambda>t. teacher_id t = snd entry) teachers
        then [''Warning: Teacher '' @ snd entry @ '' not found'']
      else [])"

text \<open>The (course, section) pair a request was built for: the key of its mapping entry.\<close>

definition request_key :: "request \<Rightarrow> string \<times> string" where
  "request_key r = (course_id (req_course r), section_id (req_section r))"

text \<open>
  The audit, in the words of its description. A booking is identified by the resource
  (the id of the teacher, room or section) and the slot. Going through the list once,
  an assignment whose booking is already taken by an assignment seen before it yields
  one entry, with the course name of the occupant stored last for that booking and the
  course name of the assignment itself.
\<close>

definition by_teacher :: "class_assignment \<Rightarrow> string" where
  "by_teacher a = teacher_id (a_teacher a)"

definition by_room :: "class_assignment \<Rightarrow> string" where
  "by_room a = room_id (a_room a)"

definition by_section :: "class_assignment \<Rightarrow> string" where
  "by_section a = section_id (a_section a)"

definition booking :: "(class_assignment \<Rightarrow> string) \<Rightarrow> class_assignment \<Rightarrow> string \<times> slot_key" where
  "booking rid a = (rid a, slot_key (a_time_slot a))"

definition occupant ::
  "(class_assignment \<Rightarrow> string) \<Rightarrow> class_assignment list \<Rightarrow> class_assignment
     \<Rightarrow> class_assignment option" where
  "occupant rid seen a = find (\<lambda>e. booking rid e = booking rid a) (rev seen)"

fun booking_conflicts ::
  "(class_assignment \<Rightarrow> string) \<Rightarrow> (class_assignment \<Rightarrow> string) \<Rightarrow> class_assignment list
     \<Rightarrow> class_assignment list \<Rightarrow> booking_conflict list" where
  "booking_conflicts rid rname seen [] = []"
| "booking_conflicts rid rname seen (a # rest) =
     (case occupant rid seen a of
        None \<Rightarrow> []
      | Some e \<Rightarrow> [\<lparr>bc_resource = rname a,
                     bc_time_slot = str_time_slot (a_time_slot a),
                     bc_courses = [course_name (a_course e), course_name (a_course a)]\<rparr>])
     @ booking_conflicts rid rname (seen @ [a]) rest"

definition capacity_issue_of :: "class_assignment \<Rightarrow> capacity_issue" where
  "capacity_issue_of a =
     \<lparr>ci_room = room_name (a_room a), ci_capacity = capacity (a_room a),
      ci_section = section_name (a_section a),
      ci_student_count = student_count (a_section a),
      ci_time_slot = str_time_slot (a_time_slot a)\<rparr>"

definition availability_issue_of :: "class_assignment \<Rightarrow> availability_issue" where
  "availability_issue_of a =
     \<lparr>ai_teacher = teacher_name (a_teacher a), ai_time_slot = str_time_slot (a_time_slot a)\<rparr>"

definition room_type_issue_of :: "class_assignment \<Rightarrow> room_type_issue" where
  "room_type_issue_of a =
     \<lparr>ri_course = course_name (a_course a), ri_room = room_name (a_room a),
      ri_room_type = room_type (a_room a), ri_required_type = ''lab''\<rparr>"

definition audit :: "class_assignment list \<Rightarrow> conflict_report" where
  "audit L =
     \<lparr>teacher_conflicts = booking_conflicts by_teacher (\<lambda>a. teacher_name (a_teacher a)) [] L,
      room_conflicts = booking_conflicts by_room (\<lambda>a. room_name (a_room a)) [] L,
      section_conflicts = booking_conflicts by_section (\<lambda>a. section_name (a_section a)) [] L,
      capacity_issues =
        map capacity_issue_of (filter (\<lambda>a. capacity (a_room a) < student_count (a_section a)) L),
      availability_issues =
        map availability_issue_of (filter (\<lambda>a. \<not> is_available (a_teacher a) (a_time_slot a)) L),
      room_type_issues =
        map room_type_issue_of
          (filter (\<lambda>a. course_type (a_course a) = ''lab'' \<and> room_type (a_room a) \<noteq> ''lab'') L)\<rparr>"

text \<open>A list built by appending, one at a time, candidates the validator accepted.\<close>

inductive validator_built :: "class_assignment list \<Rightarrow> bool" where
  empty: "validator_built []"
| append: "validator_built L \<Longrightarrow> fst (validate_assignment a L) \<Longrightarrow> validator_built (L @ [a])"

text \<open>
  What a candidate adds to the audit's count when appended to a list: one per category
  that fires.
\<close>

definition new_findings :: "class_assignment \<Rightarrow> class_assignment list \<Rightarrow> nat" where
  "new_findings a L =
     (if \<exists>e\<in>set L. teacher_clash e a then 1 else 0)
     + (if \<exists>e\<in>set L. room_clash e a then 1 else 0)
     + (if \<exists>e\<in>set L. section_clash e a then 1 else 0)
     + (if capacity (a_room a) < student_count (a_section a) then 1 else 0)
     + (if \<not> is_available (a_teacher a) (a_time_slot a) then 1 else 0)
     + (if course_type (a_course a) = ''lab'' \<and> room_type (a_room a) \<noteq> ''lab'' then 1 else 0)"

text \<open>
  Exactly \<open>k \<ge> 1\<close> assignments of the list hold the booking \<open>K\<close>, and no other booking of
  this kind is held twice.
\<close>

definition shared_by ::
  "nat \<Rightarrow> (class_assignment \<Rightarrow> string) \<Rightarrow> string \<times> slot_key \<Rightarrow> class_assignment list \<Rightarrow> bool" where
  "shared_by k rid K L =
     (length (filter (\<lambda>a. booking rid a = K) L) = k \<and> 1 \<le> k
      \<and> distinct (map (booking rid) (filter (\<lambda>a. booking rid a \<noteq> K) L)))"

text \<open>
  Reading the nested lookup dictionaries, and the invariant of the audit loop: after the
  assignments \<open>seen\<close>, a dictionary holds for every booking the assignment stored last.
\<close>

definition look :: "schedule \<Rightarrow> string \<Rightarrow> slot_key \<Rightarrow> class_assignment option" where
  "look sched r k = (case sched r of None \<Rightarrow> None | Some m \<Rightarrow> m k)"

definition stores :: "(class_assignment \<Rightarrow> string) \<Rightarrow> class_assignment list \<Rightarrow> schedule \<Rightarrow> bool" where
  "stores rid seen sched =
     (\<forall>r k. look sched r k = find (\<lambda>e. booking rid e = (r, k)) (rev seen))"

definition tracked :: "class_assignment list \<Rightarrow> detector_state \<Rightarrow> bool" where
  "tracked seen d =
     (stores by_teacher seen (teacher_schedule d)
      \<and> stores by_room seen (room_schedule d)
      \<and> stores by_section seen (section_schedule d))"

text \<open>
  The six hard invariants of a committed list: no two assignments (at different
  positions) share teacher and slot, room and slot, or section and slot; every room is
  large enough, every teacher available, and a lab course sits in a lab.
\<close>

definition hard_invariants :: "class_assignment list \<Rightarrow> bool" where
  "hard_invariants L =
     ((\<forall>i<length L. \<forall>j<length L. i \<noteq> j \<longrightarrow>
          \<not> teacher_clash (L ! i) (L ! j) \<and> \<not> room_clash (L ! i) (L ! j)
          \<and> \<not> section_clash (L ! i) (L ! j))
      \<and> (\<forall>a\<in>set L. student_count (a_section a) \<le> capacity (a_room a)
            \<and> is_available (a_teacher a) (a_time_slot a)
            \<and> (course_type (a_course a) = ''lab'' \<longrightarrow> room_type (a_room a) = ''lab'')))"

section \<open>Example data\<close>

definition monday_1 :: time_slot where
  "monday_1 = \<lparr>day = ''Monday'', period = 1, start_time = ''09:00'', end_time = ''10:00''\<rparr>"

definition tuesday_1 :: time_slot where
  "tuesday_1 = \<lparr>day = ''Tuesday'', period = 1, start_time = ''09:00'', end_time = ''10:00''\<rparr>"

definition dr_sharma :: teacher where
  "dr_sharma = \<lparr>teacher_id = ''T001'', teacher_name = ''Dr. Sharma'',
                 teacher_department = ''Computer Science'',
                 specializations = [''Data Structures'', ''Algorithms''],
                 unavailable_slots = []\<rparr>"

definition cs101 :: course where
  "cs101 = \<lparr>course_id = ''CS101'', course_name = ''Data Structures'',
             course_department = ''Computer Science'', hours_per_week = 1,
             course_type = ''theory''\<rparr>"

definition cs102 :: course where
  "cs102 = \<lparr>course_id = ''CS102'', course_name = ''Algorithms'',
             course_department = ''Computer Science'', hours_per_week = 1,
             course_type = ''theory''\<rparr>"

definition cs104 :: course where
  "cs104 = \<lparr>course_id = ''CS104'', course_name = ''Programming Lab'',
             course_department = ''Computer Science'', hours_per_week = 1,
             course_type = ''lab''\<rparr>"

definition ma101 :: course where
  "ma101 = \<lparr>course_id = ''MA101'', course_name = ''Calculus I'',
             course_department = ''Mathematics'', hours_per_week = 3,
             course_type = ''theory''\<rparr>"

definition cs_a :: student_section where
  "cs_a = \<lparr>section_id = ''S001'', section_name = ''CS-A'',
            section_department = ''Computer Science'', semester = 3, student_count = 10\<rparr>"

definition cs_b :: student_section where
  "cs_b = \<lparr>section_id = ''S002'', section_name = ''CS-B'',
            section_department = ''Computer Science'', semester = 3, student_count = 10\<rparr>"

definition room_101 :: room where
  "room_101 = \<lparr>room_id = ''R001'', room_name = ''Room 101'', capacity = 10,
                room_type = ''classroom''\<rparr>"

definition room_105 :: room where
  "room_105 = \<lparr>room_id = ''R005'', room_name = ''Room 105'', capacity = 5,
                room_type = ''classroom''\<rparr>"

definition lab_201 :: room where
  "lab_201 = \<lparr>room_id = ''L001'', room_name = ''Lab 201'', capacity = 60, room_type = ''lab''\<rparr>"

definition theory_request :: request where
  "theory_request = \<lparr>req_course = cs101, req_section = cs_a, req_teacher = dr_sharma,
                      req_instance = 1\<rparr>"

definition lab_request :: request where
  "lab_request = \<lparr>req_course = cs104, req_section = cs_a, req_teacher = dr_sharma,
                   req_instance = 1\<rparr>"

definition algorithms_request :: request where
  "algorithms_request = \<lparr>req_course = cs102, req_section = cs_a, req_teacher = dr_sharma,
                          req_instance = 1\<rparr>"

text \<open>A committed class of Dr. Sharma on Monday period 1, and a candidate that clashes with it
  and is placed in a room that is too small.\<close>

definition committed_class :: class_assignment where
  "committed_class = \<lparr>a_course = cs101, a_section = cs_b, a_teacher = dr_sharma,
                       a_room = room_101, a_time_slot = monday_1\<rparr>"

definition cramped_candidate :: class_assignment where
  "cramped_candidate = \<lparr>a_course = cs101, a_section = cs_a, a_teacher = dr_sharma,
                         a_room = room_105, a_time_slot = monday_1\<rparr>"

text \<open>Three classes of Dr. Sharma on Monday period 1, in three rooms, for two sections.\<close>

definition lab_class :: class_assignment where
  "lab_class = \<lparr>a_course = cs104, a_section = cs_a, a_teacher = dr_sharma,
                 a_room = lab_201, a_time_slot = monday_1\<rparr>"

definition calculus_class :: class_assignment where
  "calculus_class = \<lparr>a_course = ma101, a_section = cs_a, a_teacher = dr_sharma,
                      a_room = room_105, a_time_slot = monday_1\<rparr>"

definition monday_classes :: "class_assignment list" where
  "monday_classes = [committed_class, lab_class, calculus_class]"

text \<open>A mapping whose second entry names a course that does not exist.\<close>

definition sample_mapping :: course_assignments where
  "sample_mapping =
     [((''MA101'', ''S001''), ''T001''), ((''XX999'', ''S001''), ''T001'')]"

text \<open>One course for one section; and two courses for the same section and teacher.\<close>

definition single_mapping :: course_assignments where
  "single_mapping = [((''CS101'', ''S001''), ''T001'')]"

definition double_mapping :: course_assignments where
  "double_mapping = [((''CS101'', ''S001''), ''T001''), ((''CS102'', ''S001''), ''T001'')]"

text \<open>A slot universe of one slot, and one of two.\<close>

definition one_slot_config :: timetable_config where
  "one_slot_config =
     \<lparr>days = [''Monday''], periods_per_day = 1,
      time_slots = [1 \<mapsto> (''09:00'', ''10:00'')]\<rparr>"

definition two_slot_config :: timetable_config where
  "two_slot_config =
     \<lparr>days = [''Monday'', ''Tuesday''], periods_per_day = 1,
      time_slots = [1 \<mapsto> (''09:00'', ''10:00'')]\<rparr>"

text \<open>Two generator states, delivering the draw 0 for ever and the draw 1 for ever, and a
  seeding function.\<close>

definition zero_rng :: rng where
  "zero_rng = sconst 0"

definition one_rng :: rng where
  "one_rng = sconst 1"

definition library_seed :: "int \<Rightarrow> rng" where
  "library_seed s = sconst (nat \<bar>s\<bar>)"

text \<open>The state in which the only request has been committed with the only unit of a budget
  of one.\<close>

definition spent_state :: generator_state where
  "spent_state =
     \<lparr>assignments = [candidate_of theory_request room_101 monday_1], attempts = 1,
      backtracks = 0, conflicts_resolved = 0, rng_state = zero_rng\<rparr>"

text \<open>A second teacher, not available on Monday period 1, and her request for the same
  section.\<close>

definition dr_patel :: teacher where
  "dr_patel = \<lparr>teacher_id = ''T002'', teacher_name = ''Dr. Patel'',
                teacher_department = ''Computer Science'',
                specializations = [''Database'', ''Programming''],
                unavailable_slots = [monday_1]\<rparr>"

definition patel_request :: request where
  "patel_request = \<lparr>req_course = cs102, req_section = cs_a, req_teacher = dr_patel,
                     req_instance = 1\<rparr>"

section \<open>The validator reports every violation\<close>

lemma fold_append_if:
  "fold (\<lambda>e cs. if P e then cs @ [m] else cs) xs cs0 = cs0 @ replicate (length (filter P xs)) m"
  by (induction xs arbitrary: cs0) (simp_all add: replicate_app_Cons_same)

lemma validate_assignment_eq:
  "validate_assignment a L = (violations_of a L = [], violations_of a L)"
  by (simp add: validate_assignment_def violations_of_def check_teacher_conflict_def
      check_room_conflict_def check_section_conflict_def check_room_capacity_def
      check_teacher_availability_def check_room_type_compatibility_def fold_append_if Let_def)

lemma validate_ok_iff:
  "fst (validate_assignment a L) \<longleftrightarrow>
     (\<forall>e\<in>set L. \<not> teacher_clash e a \<and> \<not> room_clash e a \<and> \<not> section_clash e a)
     \<and> student_count (a_section a) \<le> capacity (a_room a)
     \<and> is_available (a_teacher a) (a_time_slot a)
     \<and> (course_type (a_course a) = ''lab'' \<longrightarrow> room_type (a_room a) = ''lab'')"
  by (auto simp add: validate_assignment_eq violations_of_def filter_empty_conv)

text \<open>
  C3. One call of \<open>validate_assignment\<close> runs all six checks: its violation list is the
  concatenation of what each check contributes (\<open>violations_of\<close>), the flag is true exactly
  when that list is empty, and a candidate whose room is too small and whose teacher is
  already booked at its slot gets both descriptions.
\<close>

theorem validate_assignment_reports_every_violation:
  "snd (validate_assignment a L) = violations_of a L
   \<and> (fst (validate_assignment a L) \<longleftrightarrow> snd (validate_assignment a L) = [])
   \<and> (capacity (a_room a) < student_count (a_section a) \<and> (\<exists>e\<in>set L. teacher_clash e a)
        \<longrightarrow> teacher_conflict_msg a \<in> set (snd (validate_assignment a L))
          \<and> capacity_conflict_msg a \<in> set (snd (validate_assignment a L)))"
  by (auto simp add: validate_assignment_eq violations_of_def filter_empty_conv)

theorem validate_assignment_reports_every_violation_witness:
  "capacity (a_room cramped_candidate) < student_count (a_section cramped_candidate)
   \<and> teacher_clash committed_class cramped_candidate
   \<and> snd (validate_assignment cramped_candidate [committed_class]) =
       [''Teacher conflict: Dr. Sharma is already scheduled at Monday Period 1 (09:00-10:00)'',
        ''Capacity conflict: Room Room 105 (capacity: 5) is too small for section CS-A (students: 10)'']
   \<and> teacher_conflict_msg cramped_candidate
        \<in> set (snd (validate_assignment cramped_candidate [committed_class]))
   \<and> capacity_conflict_msg cramped_candidate
        \<in> set (snd (validate_assignment cramped_candidate [committed_class]))"
proof -
  have cap: "capacity (a_room cramped_candidate) < student_count (a_section cramped_candidate)"
    by (simp add: cramped_candidate_def room_105_def cs_a_def)
  have clash: "teacher_clash committed_class cramped_candidate"
    by (simp add: teacher_clash_def teacher_eq_def time_slot_eq_def committed_class_def
        cramped_candidate_def)
  have ex: "\<exists>e\<in>set [committed_class]. teacher_clash e cramped_candidate"
    using clash by simp
  have msgs: "violations_of cramped_candidate [committed_class] =
       [''Teacher conflict: Dr. Sharma is already scheduled at Monday Period 1 (09:00-10:00)'',
        ''Capacity conflict: Room Room 105 (capacity: 5) is too small for section CS-A (students: 10)'']"
    by (simp add: violations_of_def teacher_clash_def room_clash_def section_clash_def
        teacher_eq_def room_eq_def section_eq_def time_slot_eq_def is_available_def
        committed_class_def cramped_candidate_def room_105_def room_101_def cs_a_def cs_b_def
        cs101_def dr_sharma_def monday_1_def teacher_conflict_msg_def capacity_conflict_msg_def
        str_time_slot_def str_int_def str_nat.simps digit_char_def)
  note all = validate_assignment_reports_every_violation [of cramped_candidate "[committed_class]"]
  have v: "snd (validate_assignment cramped_candidate [committed_class]) =
       [''Teacher conflict: Dr. Sharma is already scheduled at Monday Period 1 (09:00-10:00)'',
        ''Capacity conflict: Room Room 105 (capacity: 5) is too small for section CS-A (students: 10)'']"
    by (rule trans [OF conjunct1 [OF all] msgs])
  have both: "teacher_conflict_msg cramped_candidate
        \<in> set (snd (validate_assignment cramped_candidate [committed_class]))
      \<and> capacity_conflict_msg cramped_candidate
        \<in> set (snd (validate_assignment cramped_candidate [committed_class]))"
    using all cap ex by blast
  show ?thesis
    by (intro conjI cap clash v conjunct1 [OF both] conjunct2 [OF both])
qed

section \<open>Candidate generation\<close>

lemma mset_shuffle_loop:
  "\<forall>i\<in>set is. i < length x \<Longrightarrow> mset (fst (shuffle_loop is x g)) = mset x"
proof (induction "is" arbitrary: x g)
  case Nil
  then show ?case by simp
next
  case (Cons i "is")
  have i: "i < length x" using Cons.prems by simp
  have "shd g mod Suc i < Suc i" by simp
  then have j: "shd g mod Suc i < length x" using i by linarith
  have "mset (x[i := x ! (shd g mod Suc i), shd g mod Suc i := x ! i]) = mset x"
    by (rule mset_swap[OF j i])
  then show ?case using Cons.prems
    by (simp add: randbelow_def Cons.IH)
qed

lemma mset_shuffle: "mset (fst (shuffle x g)) = mset x"
  unfolding shuffle_def by (rule mset_shuffle_loop) auto

lemma set_shuffle: "set (fst (shuffle x g)) = set x"
  using mset_shuffle [of x g] by (metis set_mset_mset)

lemma mset_concat_map_cong:
  "mset xs = mset ys \<Longrightarrow> mset (concat (map F xs)) = mset (concat (map F ys))"
proof -
  assume a: "mset xs = mset ys"
  have "\<And>zs. mset (concat (map F zs)) = sum_mset (image_mset (\<lambda>z. mset (F z)) (mset zs))"
    by (induct_tac zs) simp_all
  then show ?thesis using a by simp
qed

lemma mset_possible:
  "mset (fst (get_possible_assignments req rooms all_slots g)) =
   mset (concat (map (\<lambda>r. map (candidate_of req r)
           (filter (is_available (req_teacher req)) all_slots))
         (filter (suitable_room (req_course req) (req_section req)) rooms)))"
proof -
  have f: "(\<lambda>r. \<not> capacity r < student_count (req_section req) \<and>
              \<not> (course_type (req_course req) = ''lab'' \<and> room_type r \<noteq> ''lab''))
         = suitable_room (req_course req) (req_section req)"
    by (auto simp: suitable_room_def fun_eq_iff)
  show ?thesis
    unfolding get_possible_assignments_def Let_def mset_shuffle filter_suitable_rooms_def
      filter_available_slots_def f candidate_of_def
    by (rule mset_concat_map_cong) simp
qed

lemma set_possible:
  "set (fst (get_possible_assignments req rooms all_slots g)) =
   {candidate_of req r slot | r slot.
      r \<in> set rooms \<and> suitable_room (req_course req) (req_section req) r
      \<and> slot \<in> set all_slots \<and> is_available (req_teacher req) slot}"
proof -
  have "set (fst (get_possible_assignments req rooms all_slots g)) =
        set_mset (mset (fst (get_possible_assignments req rooms all_slots g)))"
    by simp
  also have "\<dots> = set (concat (map (\<lambda>r. map (candidate_of req r)
           (filter (is_available (req_teacher req)) all_slots))
         (filter (suitable_room (req_course req) (req_section req)) rooms)))"
    unfolding mset_possible by simp
  also have "\<dots> = {candidate_of req r slot | r slot.
      r \<in> set rooms \<and> suitable_room (req_course req) (req_section req) r
      \<and> slot \<in> set all_slots \<and> is_available (req_teacher req) slot}"
    by auto
  finally show ?thesis .
qed

lemma possible_single:
  "suitable_room (req_course req) (req_section req) r \<Longrightarrow> is_available (req_teacher req) slot
   \<Longrightarrow> fst (get_possible_assignments req [r] [slot] g) = [candidate_of req r slot]"
  by (simp add: get_possible_assignments_def filter_suitable_rooms_def
      filter_available_slots_def suitable_room_def candidate_of_def shuffle_def Let_def)

text \<open>
  C2, as stated, fails: the room filter only keeps non-lab rooms away from lab courses.
  For the theory course CS101 the lab room Lab 201 is a candidate.
\<close>

theorem lab_room_is_candidate_for_theory_course:
  "fst (get_possible_assignments theory_request [lab_201] [monday_1] zero_rng) =
     [candidate_of theory_request lab_201 monday_1]
   \<and> a_room (candidate_of theory_request lab_201 monday_1) = lab_201
   \<and> room_type lab_201 = ''lab''
   \<and> course_type (req_course theory_request) \<noteq> ''lab''
   \<and> course_type (a_course (candidate_of theory_request lab_201 monday_1)) \<noteq> ''lab''"
proof -
  have s: "suitable_room (req_course theory_request) (req_section theory_request) lab_201"
    by (simp add: suitable_room_def theory_request_def cs101_def cs_a_def lab_201_def)
  have a: "is_available (req_teacher theory_request) monday_1"
    by (simp add: is_available_def theory_request_def dr_sharma_def)
  show ?thesis
    by (simp add: possible_single [OF s a])
       (simp add: candidate_of_def theory_request_def cs101_def lab_201_def)
qed

text \<open>
  C2, amended. The candidate list of a request is a permutation of the cross product of
  the rooms with \<open>capacity \<ge> student_count\<close> that are labs whenever the course is a lab
  (\<open>suitable_room\<close>) with the slots of the universe at which the request's teacher is
  available; so a room that is not a lab is never a candidate for a lab course.
\<close>

theorem candidates_are_permutation_of_filtered_product:
  "mset (fst (get_possible_assignments req rooms all_slots g)) =
     mset (concat (map (\<lambda>r. map (candidate_of req r)
             (filter (is_available (req_teacher req)) all_slots))
           (filter (suitable_room (req_course req) (req_section req)) rooms)))
   \<and> (\<forall>a\<in>set (fst (get_possible_assignments req rooms all_slots g)).
        course_type (a_course a) = ''lab'' \<longrightarrow> room_type (a_room a) = ''lab'')"
proof
  show "mset (fst (get_possible_assignments req rooms all_slots g)) =
     mset (concat (map (\<lambda>r. map (candidate_of req r)
             (filter (is_available (req_teacher req)) all_slots))
           (filter (suitable_room (req_course req) (req_section req)) rooms)))"
    by (rule mset_possible)
  show "\<forall>a\<in>set (fst (get_possible_assignments req rooms all_slots g)).
        course_type (a_course a) = ''lab'' \<longrightarrow> room_type (a_room a) = ''lab''"
    unfolding set_possible by (auto simp: candidate_of_def suitable_room_def)
qed

theorem candidates_are_permutation_of_filtered_product_witness:
  "fst (get_possible_assignments lab_request [room_101, lab_201] [monday_1] zero_rng) =
     [candidate_of lab_request lab_201 monday_1]
   \<and> course_type (a_course (candidate_of lab_request lab_201 monday_1)) = ''lab''
   \<and> room_type (a_room (candidate_of lab_request lab_201 monday_1)) = ''lab''"
proof -
  have c: "fst (get_possible_assignments lab_request [room_101, lab_201] [monday_1] zero_rng) =
     [candidate_of lab_request lab_201 monday_1]"
    by (simp add: get_possible_assignments_def filter_suitable_rooms_def
      filter_available_slots_def candidate_of_def shuffle_def Let_def is_available_def
      lab_request_def cs104_def cs_a_def room_101_def lab_201_def dr_sharma_def)
  have l: "course_type (a_course (candidate_of lab_request lab_201 monday_1)) = ''lab''"
    by (simp add: candidate_of_def lab_request_def cs104_def)
  have m: "candidate_of lab_request lab_201 monday_1
        \<in> set (fst (get_possible_assignments lab_request [room_101, lab_201] [monday_1] zero_rng))"
    unfolding c by simp
  from candidates_are_permutation_of_filtered_product
         [of lab_request "[room_101, lab_201]" "[monday_1]" zero_rng] m l
  have "room_type (a_room (candidate_of lab_request lab_201 monday_1)) = ''lab''"
    by blast
  with c l show ?thesis by blast
qed

section \<open>Request building\<close>

lemma fold_snoc_map: "fold (\<lambda>i rs. rs @ [f i]) xs rs0 = rs0 @ map f xs"
  by (induction xs arbitrary: rs0) simp_all

lemma map_succ_upto: "map (\<lambda>i. i + 1) [0..h - 1] = [1..h]"
  by (rule nth_equalityI) simp_all

lemma course_dict_snoc: "course_dict (cs @ [c]) = (course_dict cs)(course_id c \<mapsto> c)"
  by (simp add: course_dict_def)

lemma course_dict_lookup: "course_dict courses = lookup_course courses"
proof (induction courses rule: rev_induct)
  case Nil
  show ?case by (simp add: course_dict_def lookup_course_def fun_eq_iff)
next
  case (snoc c cs)
  show ?case unfolding course_dict_snoc snoc.IH
    by (auto simp add: lookup_course_def fun_eq_iff)
qed

lemma section_dict_lookup: "section_dict sections = lookup_section sections"
proof (induction sections rule: rev_induct)
  case Nil
  show ?case by (simp add: section_dict_def lookup_section_def fun_eq_iff)
next
  case (snoc s ss)
  have "section_dict (ss @ [s]) = (section_dict ss)(section_id s \<mapsto> s)"
    by (simp add: section_dict_def)
  then show ?case unfolding snoc.IH
    by (auto simp add: lookup_section_def fun_eq_iff)
qed

lemma teacher_dict_lookup: "teacher_dict teachers = lookup_teacher teachers"
proof (induction teachers rule: rev_induct)
  case Nil
  show ?case by (simp add: teacher_dict_def lookup_teacher_def fun_eq_iff)
next
  case (snoc t ts)
  have "teacher_dict (ts @ [t]) = (teacher_dict ts)(teacher_id t \<mapsto> t)"
    by (simp add: teacher_dict_def)
  then show ?case unfolding snoc.IH
    by (auto simp add: lookup_teacher_def fun_eq_iff)
qed

lemma find_rev_None: "find P (rev xs) = None \<longleftrightarrow> \<not> list_ex P xs"
  by (auto simp add: find_None_iff list_ex_iff)

lemma build_entry_eq:
  "build_entry (course_dict courses) (section_dict sections) (teacher_dict teachers) e (rs, ws) =
     (rs @ entry_requests courses sections teachers e, ws @ entry_warnings courses sections teachers e)"
proof -
  obtain cid sid tid where e: "e = ((cid, sid), tid)" by (metis prod.collapse)
  show ?thesis
    unfolding e build_entry_def course_dict_lookup section_dict_lookup teacher_dict_lookup
    by (auto simp add: entry_requests_def entry_warnings_def fold_snoc_map Let_def
        find_rev_None[symmetric] lookup_course_def lookup_section_def lookup_teacher_def
        map_succ_upto[symmetric] comp_def)
qed

lemma build_fold:
  "fold (build_entry (course_dict courses) (section_dict sections) (teacher_dict teachers)) ca (rs, ws) =
     (rs @ concat (map (entry_requests courses sections teachers) ca),
      ws @ concat (map (entry_warnings courses sections teachers) ca))"
  by (induction ca arbitrary: rs ws) (simp_all add: build_entry_eq)

lemma build_scheduling_requests_eq:
  "build_scheduling_requests courses sections teachers ca =
     (concat (map (entry_requests courses sections teachers) ca),
      concat (map (entry_warnings courses sections teachers) ca))"
  by (simp add: build_scheduling_requests_def build_fold)


lemma entry_requests_key:
  "r \<in> set (entry_requests courses sections teachers e) \<Longrightarrow> request_key r = fst e"
  by (auto simp add: entry_requests_def request_key_def lookup_course_def lookup_section_def
      find_Some_iff find_Some_iff2 prod_eq_iff split: option.splits)

lemma filter_entry_requests:
  "filter (\<lambda>r. request_key r = k) (entry_requests courses sections teachers e) =
     (if fst e = k then entry_requests courses sections teachers e else [])"
  using entry_requests_key [of _ courses sections teachers e]
  by (auto simp add: filter_empty_conv filter_id_conv)

lemma concat_other_keys:
  "k \<notin> fst ` set ca \<Longrightarrow>
   concat (map (\<lambda>e. if fst e = k then F e else []) ca) = []"
  by (induction ca) auto

lemma concat_own_key:
  "distinct (map fst ca) \<Longrightarrow> e \<in> set ca \<Longrightarrow>
   concat (map (\<lambda>e'. if fst e' = fst e then F e' else []) ca) = F e"
proof (induction ca)
  case Nil
  then show ?case by simp
next
  case (Cons x ca)
  show ?case
  proof (cases "x = e")
    case True
    then have "fst e \<notin> fst ` set ca" using Cons.prems by auto
    then show ?thesis using True by (simp add: concat_other_keys)
  next
    case False
    then have "e \<in> set ca" using Cons.prems by simp
    moreover from this have "fst x \<noteq> fst e" using Cons.prems by force
    ultimately show ?thesis using Cons by simp
  qed
qed

lemma requests_of_entry:
  assumes "distinct (map fst ca)" and "e \<in> set ca"
  shows "filter (\<lambda>r. request_key r = fst e)
           (fst (build_scheduling_requests courses sections teachers ca)) =
         entry_requests courses sections teachers e"
  unfolding build_scheduling_requests_eq fst_conv filter_concat map_map comp_def
    filter_entry_requests
  by (rule concat_own_key [OF assms])

lemma list_ex_find_rev: "list_ex P xs \<Longrightarrow> \<exists>x. find P (rev xs) = Some x \<and> P x \<and> x \<in> set xs"
  by (metis find_rev_None find_Some_iff not_Some_eq nth_mem set_rev)

lemma resolved_entry:
  assumes "resolves courses sections teachers e"
  shows "\<exists>c s t. c \<in> set courses \<and> course_id c = fst (fst e)
           \<and> s \<in> set sections \<and> section_id s = snd (fst e)
           \<and> t \<in> set teachers \<and> teacher_id t = snd e
           \<and> entry_requests courses sections teachers e =
               map (\<lambda>i. \<lparr>req_course = c, req_section = s, req_teacher = t, req_instance = i\<rparr>)
                 [1..hours_per_week c]"
proof -
  obtain c where c: "lookup_course courses (fst (fst e)) = Some c" "course_id c = fst (fst e)" "c \<in> set courses"
    using assms list_ex_find_rev unfolding resolves_def lookup_course_def by blast
  obtain s where s: "lookup_section sections (snd (fst e)) = Some s" "section_id s = snd (fst e)" "s \<in> set sections"
    using assms list_ex_find_rev unfolding resolves_def lookup_section_def by blast
  obtain t where t: "lookup_teacher teachers (snd e) = Some t" "teacher_id t = snd e" "t \<in> set teachers"
    using assms list_ex_find_rev unfolding resolves_def lookup_teacher_def by blast
  show ?thesis using c s t by (auto simp add: entry_requests_def)
qed

lemma unresolved_entry:
  assumes "\<not> resolves courses sections teachers e"
  shows "entry_requests courses sections teachers e = []
         \<and> length (entry_warnings courses sections teachers e) = 1"
  using assms
  by (auto simp add: resolves_def entry_requests_def entry_warnings_def lookup_course_def
      lookup_section_def lookup_teacher_def find_rev_None[symmetric] split: option.splits)

lemma resolved_no_warning:
  "resolves courses sections teachers e \<Longrightarrow> entry_warnings courses sections teachers e = []"
  by (simp add: resolves_def entry_warnings_def)

text \<open>
  C5. Request building returns, in mapping order, the requests of every entry and the
  warnings of every entry. An entry whose three ids resolve contributes the requests of
  its (course, section, teacher) triple with instances \<open>1..hours_per_week\<close>, that is
  \<open>hours_per_week\<close> of them, and no warning; an entry with an unresolved id contributes no
  request and one warning, and the entries after it are still processed. With the keys
  of the mapping distinct, as in a dictionary, the requests of the result that belong to
  an entry's (course, section) pair are exactly that entry's requests.
\<close>

theorem build_scheduling_requests_expands_each_resolved_entry:
  "build_scheduling_requests courses sections teachers ca =
     (concat (map (entry_requests courses sections teachers) ca),
      concat (map (entry_warnings courses sections teachers) ca))
   \<and> (\<forall>e\<in>set ca. resolves courses sections teachers e \<longrightarrow>
        (\<exists>c s t. c \<in> set courses \<and> course_id c = fst (fst e)
           \<and> s \<in> set sections \<and> section_id s = snd (fst e)
           \<and> t \<in> set teachers \<and> teacher_id t = snd e
           \<and> entry_requests courses sections teachers e =
               map (\<lambda>i. \<lparr>req_course = c, req_section = s, req_teacher = t, req_instance = i\<rparr>)
                 [1..hours_per_week c]
           \<and> length (entry_requests courses sections teachers e) = nat (hours_per_week c))
        \<and> entry_warnings courses sections teachers e = [])
   \<and> (\<forall>e\<in>set ca. \<not> resolves courses sections teachers e \<longrightarrow>
        entry_requests courses sections teachers e = []
        \<and> length (entry_warnings courses sections teachers e) = 1)
   \<and> (distinct (map fst ca) \<longrightarrow>
        (\<forall>e\<in>set ca.
           filter (\<lambda>r. request_key r = fst e)
             (fst (build_scheduling_requests courses sections teachers ca)) =
           entry_requests courses sections teachers e))"
proof (intro conjI ballI impI)
  show "build_scheduling_requests courses sections teachers ca =
     (concat (map (entry_requests courses sections teachers) ca),
      concat (map (entry_warnings courses sections teachers) ca))"
    by (rule build_scheduling_requests_eq)
next
  fix e assume "resolves courses sections teachers e"
  from resolved_entry [OF this]
  obtain c s t where *: "c \<in> set courses" "course_id c = fst (fst e)"
      "s \<in> set sections" "section_id s = snd (fst e)"
      "t \<in> set teachers" "teacher_id t = snd e"
      "entry_requests courses sections teachers e =
         map (\<lambda>i. \<lparr>req_course = c, req_section = s, req_teacher = t, req_instance = i\<rparr>)
           [1..hours_per_week c]"
    by blast
  have "length (entry_requests courses sections teachers e) = nat (hours_per_week c)"
    unfolding *(7) by simp
  with * show "\<exists>c s t. c \<in> set courses \<and> course_id c = fst (fst e)
           \<and> s \<in> set sections \<and> section_id s = snd (fst e)
           \<and> t \<in> set teachers \<and> teacher_id t = snd e
           \<and> entry_requests courses sections teachers e =
               map (\<lambda>i. \<lparr>req_course = c, req_section = s, req_teacher = t, req_instance = i\<rparr>)
                 [1..hours_per_week c]
           \<and> length (entry_requests courses sections teachers e) = nat (hours_per_week c)"
    by blast
next
  fix e assume "resolves courses sections teachers e"
  then show "entry_warnings courses sections teachers e = []"
    by (rule resolved_no_warning)
next
  fix e assume "\<not> resolves courses sections teachers e"
  from unresolved_entry [OF this]
  show "entry_requests courses sections teachers e = []"
    and "length (entry_warnings courses sections teachers e) = 1"
    by simp_all
next
  fix e assume "distinct (map fst ca)" and "e \<in> set ca"
  then show "filter (\<lambda>r. request_key r = fst e)
             (fst (build_scheduling_requests courses sections teachers ca)) =
           entry_requests courses sections teachers e"
    by (rule requests_of_entry)
qed

theorem build_scheduling_requests_expands_each_resolved_entry_witness:
  "((''MA101'', ''S001''), ''T001'') \<in> set sample_mapping
   \<and> resolves [cs101, ma101] [cs_a] [dr_sharma] ((''MA101'', ''S001''), ''T001'')
   \<and> ((''XX999'', ''S001''), ''T001'') \<in> set sample_mapping
   \<and> \<not> resolves [cs101, ma101] [cs_a] [dr_sharma] ((''XX999'', ''S001''), ''T001'')
   \<and> distinct (map fst sample_mapping)
   \<and> build_scheduling_requests [cs101, ma101] [cs_a] [dr_sharma] sample_mapping =
       ([\<lparr>req_course = ma101, req_section = cs_a, req_teacher = dr_sharma, req_instance = 1\<rparr>,
         \<lparr>req_course = ma101, req_section = cs_a, req_teacher = dr_sharma, req_instance = 2\<rparr>,
         \<lparr>req_course = ma101, req_section = cs_a, req_teacher = dr_sharma, req_instance = 3\<rparr>],
        [''Warning: Course XX999 not found''])
   \<and> filter (\<lambda>r. request_key r = (''MA101'', ''S001''))
        (fst (build_scheduling_requests [cs101, ma101] [cs_a] [dr_sharma] sample_mapping)) =
      entry_requests [cs101, ma101] [cs_a] [dr_sharma] ((''MA101'', ''S001''), ''T001'')
   \<and> entry_requests [cs101, ma101] [cs_a] [dr_sharma] ((''XX999'', ''S001''), ''T001'') = []
   \<and> length (entry_warnings [cs101, ma101] [cs_a] [dr_sharma] ((''XX999'', ''S001''), ''T001'')) = 1"
proof -
  note T = build_scheduling_requests_expands_each_resolved_entry
             [of "[cs101, ma101]" "[cs_a]" "[dr_sharma]" sample_mapping]
  have m1: "((''MA101'', ''S001''), ''T001'') \<in> set sample_mapping"
    and m2: "((''XX999'', ''S001''), ''T001'') \<in> set sample_mapping"
    and d: "distinct (map fst sample_mapping)"
    by (simp_all add: sample_mapping_def)
  have r1: "resolves [cs101, ma101] [cs_a] [dr_sharma] ((''MA101'', ''S001''), ''T001'')"
    and r2: "\<not> resolves [cs101, ma101] [cs_a] [dr_sharma] ((''XX999'', ''S001''), ''T001'')"
    by (simp_all add: resolves_def cs101_def ma101_def cs_a_def dr_sharma_def)
  have er: "entry_requests [cs101, ma101] [cs_a] [dr_sharma] ((''MA101'', ''S001''), ''T001'') =
       [\<lparr>req_course = ma101, req_section = cs_a, req_teacher = dr_sharma, req_instance = 1\<rparr>,
        \<lparr>req_course = ma101, req_section = cs_a, req_teacher = dr_sharma, req_instance = 2\<rparr>,
        \<lparr>req_course = ma101, req_section = cs_a, req_teacher = dr_sharma, req_instance = 3\<rparr>]"
    by (simp add: entry_requests_def lookup_course_def lookup_section_def lookup_teacher_def
        cs101_def ma101_def cs_a_def dr_sharma_def upto_rec1)
  have ew: "entry_warnings [cs101, ma101] [cs_a] [dr_sharma] ((''XX999'', ''S001''), ''T001'') =
       [''Warning: Course XX999 not found'']"
    by (simp add: entry_warnings_def cs101_def ma101_def)
  from T m2 r2
  have u: "entry_requests [cs101, ma101] [cs_a] [dr_sharma] ((''XX999'', ''S001''), ''T001'') = []
     \<and> length (entry_warnings [cs101, ma101] [cs_a] [dr_sharma] ((''XX999'', ''S001''), ''T001'')) = 1"
    by blast
  from T m1 r1
  have w: "entry_warnings [cs101, ma101] [cs_a] [dr_sharma] ((''MA101'', ''S001''), ''T001'') = []"
    by blast
  from T m1 d
  have f: "filter (\<lambda>r. request_key r = fst ((''MA101'', ''S001''), ''T001''))
        (fst (build_scheduling_requests [cs101, ma101] [cs_a] [dr_sharma] sample_mapping)) =
      entry_requests [cs101, ma101] [cs_a] [dr_sharma] ((''MA101'', ''S001''), ''T001'')"
    by blast
  have b: "build_scheduling_requests [cs101, ma101] [cs_a] [dr_sharma] sample_mapping =
       ([\<lparr>req_course = ma101, req_section = cs_a, req_teacher = dr_sharma, req_instance = 1\<rparr>,
         \<lparr>req_course = ma101, req_section = cs_a, req_teacher = dr_sharma, req_instance = 2\<rparr>,
         \<lparr>req_course = ma101, req_section = cs_a, req_teacher = dr_sharma, req_instance = 3\<rparr>],
        [''Warning: Course XX999 not found''])"
    unfolding conjunct1 [OF T] unfolding sample_mapping_def
    by (simp add: er ew w [unfolded sample_mapping_def] conjunct1 [OF u])
  show ?thesis using m1 m2 d r1 r2 b f u by simp
qed

section \<open>The audit and the validator\<close>

lemma look_track:
  "look (fst (track (rid a) nm a sched found)) r k =
     (if (r, k) = booking rid a then Some a else look sched r k)"
  by (auto simp add: track_def look_def booking_def Let_def split: option.splits)

lemma found_track:
  "snd (track (rid a) nm a sched found) =
     found @ (case look sched (rid a) (slot_key (a_time_slot a)) of
                None \<Rightarrow> []
              | Some e \<Rightarrow> [\<lparr>bc_resource = nm,
                     bc_time_slot = str_time_slot (a_time_slot a),
                     bc_courses = [course_name (a_course e), course_name (a_course a)]\<rparr>])"
  by (auto simp add: track_def look_def Let_def split: option.splits)

lemma stores_track:
  "stores rid seen sched \<Longrightarrow> stores rid (seen @ [a]) (fst (track (rid a) nm a sched found))"
  unfolding stores_def look_track by auto

lemma stores_look:
  "stores rid seen sched \<Longrightarrow>
   look sched (rid a) (slot_key (a_time_slot a)) = occupant rid seen a"
  unfolding stores_def occupant_def booking_def by fast

lemma stores_found:
  "stores rid seen sched \<Longrightarrow>
   snd (track (rid a) (rname a) a sched found) = found @ booking_conflicts rid rname seen [a]"
  unfolding found_track by (simp add: stores_look)

lemma stores_empty: "stores rid [] Map.empty"
  by (simp add: stores_def look_def)

lemma booking_conflicts_append:
  "booking_conflicts rid rname seen (xs @ ys) =
     booking_conflicts rid rname seen xs @ booking_conflicts rid rname (seen @ xs) ys"
  by (induction xs arbitrary: seen) simp_all


lemma detect_step_tracked:
  "tracked seen d \<Longrightarrow> tracked (seen @ [a]) (detect_step a d)"
  unfolding tracked_def detect_step_def Let_def
  using stores_track [of by_teacher seen _ a] stores_track [of by_room seen _ a]
    stores_track [of by_section seen _ a]
  by (simp add: case_prod_unfold by_teacher_def by_room_def by_section_def)

lemma detect_step_conflicts:
  assumes "tracked seen d"
  shows "conflicts (detect_step a d) =
     \<lparr>teacher_conflicts = teacher_conflicts (conflicts d)
         @ booking_conflicts by_teacher (\<lambda>a. teacher_name (a_teacher a)) seen [a],
      room_conflicts = room_conflicts (conflicts d)
         @ booking_conflicts by_room (\<lambda>a. room_name (a_room a)) seen [a],
      section_conflicts = section_conflicts (conflicts d)
         @ booking_conflicts by_section (\<lambda>a. section_name (a_section a)) seen [a],
      capacity_issues = capacity_issues (conflicts d)
         @ map capacity_issue_of (filter (\<lambda>a. capacity (a_room a) < student_count (a_section a)) [a]),
      availability_issues = availability_issues (conflicts d)
         @ map availability_issue_of (filter (\<lambda>a. \<not> is_available (a_teacher a) (a_time_slot a)) [a]),
      room_type_issues = room_type_issues (conflicts d)
         @ map room_type_issue_of
          (filter (\<lambda>a. course_type (a_course a) = ''lab'' \<and> room_type (a_room a) \<noteq> ''lab'') [a])\<rparr>"
proof -
  have t: "snd (track (teacher_id (a_teacher a)) (teacher_name (a_teacher a)) a
                 (teacher_schedule d) (teacher_conflicts (conflicts d))) =
           teacher_conflicts (conflicts d)
             @ booking_conflicts by_teacher (\<lambda>a. teacher_name (a_teacher a)) seen [a]"
    using stores_found [of by_teacher seen "teacher_schedule d" a "\<lambda>a. teacher_name (a_teacher a)"]
      assms by (simp add: tracked_def by_teacher_def)
  have r: "snd (track (room_id (a_room a)) (room_name (a_room a)) a
                 (room_schedule d) (room_conflicts (conflicts d))) =
           room_conflicts (conflicts d)
             @ booking_conflicts by_room (\<lambda>a. room_name (a_room a)) seen [a]"
    using stores_found [of by_room seen "room_schedule d" a "\<lambda>a. room_name (a_room a)"]
      assms by (simp add: tracked_def by_room_def)
  have s: "snd (track (section_id (a_section a)) (section_name (a_section a)) a
                 (section_schedule d) (section_conflicts (conflicts d))) =
           section_conflicts (conflicts d)
             @ booking_conflicts by_section (\<lambda>a. section_name (a_section a)) seen [a]"
    using stores_found [of by_section seen "section_schedule d" a "\<lambda>a. section_name (a_section a)"]
      assms by (simp add: tracked_def by_section_def)
  show ?thesis
    unfolding detect_step_def Let_def case_prod_unfold t r s
    by (simp add: capacity_issue_of_def availability_issue_of_def room_type_issue_of_def)
qed

lemma tracked_init: "tracked [] detector_init"
  by (simp add: tracked_def detector_init_def stores_empty)

lemma fold_detect_step:
  "tracked L (fold detect_step L detector_init)
   \<and> conflicts (fold detect_step L detector_init) = audit L"
proof (induction L rule: rev_induct)
  case Nil
  show ?case by (simp add: tracked_init) (simp add: detector_init_def audit_def)
next
  case (snoc a L)
  then have t: "tracked L (fold detect_step L detector_init)"
    and c: "conflicts (fold detect_step L detector_init) = audit L" by simp_all
  have "tracked (L @ [a]) (fold detect_step (L @ [a]) detector_init)"
    using detect_step_tracked [OF t] by simp
  moreover have "conflicts (fold detect_step (L @ [a]) detector_init) = audit (L @ [a])"
    using detect_step_conflicts [OF t, of a]
    by (simp add: c audit_def booking_conflicts_append)
  ultimately show ?case by simp
qed

lemma find_all_conflicts_audit: "find_all_conflicts L = audit L"
  by (simp add: find_all_conflicts_def fold_detect_step)

lemma occupant_None:
  "occupant rid seen a = None \<longleftrightarrow> \<not> (\<exists>e\<in>set seen. booking rid e = booking rid a)"
  by (auto simp add: occupant_def find_None_iff)

lemma length_booking_single:
  "length (booking_conflicts rid rname seen [a]) =
     (if \<exists>e\<in>set seen. booking rid e = booking rid a then 1 else 0)"
proof (cases "occupant rid seen a")
  case None
  then show ?thesis using occupant_None [of rid seen a] by simp
next
  case (Some e)
  then show ?thesis using occupant_None [of rid seen a] by simp
qed

lemma teacher_clash_booking:
  "teacher_clash e a \<longleftrightarrow> booking by_teacher e = booking by_teacher a"
  by (auto simp add: teacher_clash_def teacher_eq_def time_slot_eq_def booking_def by_teacher_def
      slot_key_def)

lemma room_clash_booking:
  "room_clash e a \<longleftrightarrow> booking by_room e = booking by_room a"
  by (auto simp add: room_clash_def room_eq_def time_slot_eq_def booking_def by_room_def
      slot_key_def)

lemma section_clash_booking:
  "section_clash e a \<longleftrightarrow> booking by_section e = booking by_section a"
  by (auto simp add: section_clash_def section_eq_def time_slot_eq_def booking_def by_section_def
      slot_key_def)

lemma count_conflicts_snoc:
  "count_conflicts (find_all_conflicts (L @ [a])) =
     count_conflicts (find_all_conflicts L) + new_findings a L"
  unfolding find_all_conflicts_audit count_conflicts_def audit_def new_findings_def
  by (simp add: booking_conflicts_append length_booking_single
      teacher_clash_booking room_clash_booking section_clash_booking
      del: booking_conflicts.simps)

lemma new_findings_0: "new_findings a L = 0 \<longleftrightarrow> fst (validate_assignment a L)"
  unfolding validate_ok_iff new_findings_def by auto

lemma validator_built_no_conflicts:
  "validator_built L \<Longrightarrow> count_conflicts (find_all_conflicts L) = 0"
proof (induction rule: validator_built.induct)
  case empty
  show ?case by (simp add: find_all_conflicts_audit audit_def count_conflicts_def)
next
  case (append L a)
  then show ?case by (simp add: count_conflicts_snoc new_findings_0)
qed

lemma rejected_is_flagged:
  "\<not> fst (validate_assignment a L) \<Longrightarrow> count_conflicts (find_all_conflicts (L @ [a])) > 0"
  using new_findings_0 [of a L] by (simp add: count_conflicts_snoc)


lemma length_booking_conflicts:
  "length (booking_conflicts rid rname seen L) + card (booking rid ` set (seen @ L)) =
     length L + card (booking rid ` set seen)"
proof (induction L arbitrary: seen)
  case Nil
  show ?case by simp
next
  case (Cons a L)
  have fin: "finite (booking rid ` set seen)" by simp
  have one: "length (booking_conflicts rid rname seen [a]) + card (booking rid ` set (seen @ [a]))
             = 1 + card (booking rid ` set seen)"
  proof (cases "\<exists>e\<in>set seen. booking rid e = booking rid a")
    case True
    then have "booking rid a \<in> booking rid ` set seen" by (metis imageI)
    then have "insert (booking rid a) (booking rid ` set seen) = booking rid ` set seen" by blast
    then show ?thesis using True by (simp add: length_booking_single del: booking_conflicts.simps)
  next
    case False
    then have "booking rid a \<notin> booking rid ` set seen" by (metis imageE)
    then show ?thesis using False fin
      by (simp add: length_booking_single del: booking_conflicts.simps)
  qed
  have "booking_conflicts rid rname seen (a # L) =
        booking_conflicts rid rname seen [a] @ booking_conflicts rid rname (seen @ [a]) L"
    by simp
  then have "length (booking_conflicts rid rname seen (a # L)) =
        length (booking_conflicts rid rname seen [a])
        + length (booking_conflicts rid rname (seen @ [a]) L)"
    by (simp del: booking_conflicts.simps)
  with Cons.IH [of "seen @ [a]"] one show ?case by simp
qed

lemma shared_by_count:
  assumes "shared_by k rid K L"
  shows "length (booking_conflicts rid rname [] L) = k - 1"
proof -
  let ?same = "filter (\<lambda>a. booking rid a = K) L"
  let ?other = "filter (\<lambda>a. booking rid a \<noteq> K) L"
  from assms have k: "length ?same = k" "1 \<le> k" and d: "distinct (map (booking rid) ?other)"
    by (simp_all add: shared_by_def)
  from k have "?same \<noteq> []" by auto
  then obtain a where "a \<in> set L" "booking rid a = K"
    by (metis (mono_tags, lifting) filter_empty_conv)
  then have img: "booking rid ` set L = insert K (set (map (booking rid) ?other))"
    by auto
  have "K \<notin> set (map (booking rid) ?other)" by auto
  then have "card (booking rid ` set L) = Suc (card (set (map (booking rid) ?other)))"
    unfolding img by simp
  also have "\<dots> = Suc (length ?other)"
    using distinct_card [OF d] by simp
  finally have c: "card (booking rid ` set L) = Suc (length ?other)" .
  have l: "length L = length ?same + length ?other"
    using sum_length_filter_compl [of "\<lambda>a. booking rid a = K" L] by simp
  from length_booking_conflicts [of rid rname "[]" L] c l k show ?thesis by simp
qed

text \<open>
  C4. The validator and the audit agree. If \<open>validate_assignment\<close> rejects a candidate
  against a list, the audit of the list with the candidate appended counts at least one
  conflict; and the audit of a list built from the empty list by appending only accepted
  candidates counts none.
\<close>

theorem validator_and_detector_agree:
  "(\<not> fst (validate_assignment a L) \<longrightarrow> count_conflicts (find_all_conflicts (L @ [a])) > 0)
   \<and> (validator_built L \<longrightarrow> count_conflicts (find_all_conflicts L) = 0)"
  using rejected_is_flagged [of a L] validator_built_no_conflicts [of L] by blast

theorem validator_and_detector_agree_witness:
  "\<not> fst (validate_assignment cramped_candidate [committed_class])
   \<and> validator_built [committed_class]
   \<and> count_conflicts (find_all_conflicts ([committed_class] @ [cramped_candidate])) > 0
   \<and> count_conflicts (find_all_conflicts [committed_class]) = 0"
proof -
  have rej: "\<not> fst (validate_assignment cramped_candidate [committed_class])"
    by (simp add: validate_ok_iff cramped_candidate_def room_105_def cs_a_def)
  have "fst (validate_assignment committed_class [])"
    by (simp add: validate_ok_iff committed_class_def room_101_def cs_b_def cs101_def
        dr_sharma_def is_available_def)
  from validator_built.append [OF validator_built.empty this]
  have built: "validator_built [committed_class]" by simp
  from validator_and_detector_agree [of cramped_candidate "[committed_class]"] rej built
  show ?thesis by blast
qed

text \<open>
  C10. \<open>find_all_conflicts\<close> is one pass over the list (a fold) and its report is the one
  described by \<open>audit\<close>: in each double-booking category, one entry for every assignment
  whose booking is already taken, carrying the course name of the occupant stored last
  and that of the assignment. So when exactly \<open>k \<ge> 1\<close> assignments share one
  (teacher, slot) and no other (teacher, slot) is held twice, there are exactly \<open>k - 1\<close>
  teacher entries; likewise for rooms and for sections.
\<close>

theorem find_all_conflicts_records_each_double_booking:
  "find_all_conflicts L = conflicts (fold detect_step L detector_init)
   \<and> find_all_conflicts L = audit L
   \<and> (shared_by k by_teacher K L \<longrightarrow> length (teacher_conflicts (find_all_conflicts L)) = k - 1)
   \<and> (shared_by k by_room K L \<longrightarrow> length (room_conflicts (find_all_conflicts L)) = k - 1)
   \<and> (shared_by k by_section K L \<longrightarrow> length (section_conflicts (find_all_conflicts L)) = k - 1)"
  unfolding find_all_conflicts_audit
  by (simp add: audit_def shared_by_count fold_detect_step)

theorem find_all_conflicts_records_each_double_booking_witness:
  "shared_by 3 by_teacher (''T001'', ''Monday'', 1) monday_classes
   \<and> shared_by 1 by_room (''R001'', ''Monday'', 1) monday_classes
   \<and> shared_by 2 by_section (''S001'', ''Monday'', 1) monday_classes
   \<and> teacher_conflicts (find_all_conflicts monday_classes) =
       [\<lparr>bc_resource = ''Dr. Sharma'', bc_time_slot = ''Monday Period 1 (09:00-10:00)'',
         bc_courses = [''Data Structures'', ''Programming Lab'']\<rparr>,
        \<lparr>bc_resource = ''Dr. Sharma'', bc_time_slot = ''Monday Period 1 (09:00-10:00)'',
         bc_courses = [''Programming Lab'', ''Calculus I'']\<rparr>]
   \<and> length (teacher_conflicts (find_all_conflicts monday_classes)) = 3 - 1
   \<and> length (room_conflicts (find_all_conflicts monday_classes)) = 1 - 1
   \<and> length (section_conflicts (find_all_conflicts monday_classes)) = 2 - 1"
proof -
  note defs = monday_classes_def committed_class_def lab_class_def calculus_class_def
    cs101_def cs104_def ma101_def cs_a_def cs_b_def dr_sharma_def room_101_def room_105_def
    lab_201_def monday_1_def
  have t: "shared_by 3 by_teacher (''T001'', ''Monday'', 1) monday_classes"
    by (simp add: shared_by_def booking_def by_teacher_def slot_key_def defs)
  have r: "shared_by 1 by_room (''R001'', ''Monday'', 1) monday_classes"
    by (simp add: shared_by_def booking_def by_room_def slot_key_def defs)
  have s: "shared_by 2 by_section (''S001'', ''Monday'', 1) monday_classes"
    by (simp add: shared_by_def booking_def by_section_def slot_key_def defs)
  have e: "teacher_conflicts (find_all_conflicts monday_classes) =
       [\<lparr>bc_resource = ''Dr. Sharma'', bc_time_slot = ''Monday Period 1 (09:00-10:00)'',
         bc_courses = [''Data Structures'', ''Programming Lab'']\<rparr>,
        \<lparr>bc_resource = ''Dr. Sharma'', bc_time_slot = ''Monday Period 1 (09:00-10:00)'',
         bc_courses = [''Programming Lab'', ''Calculus I'']\<rparr>]"
    by (simp add: find_all_conflicts_def detect_step_def detector_init_def track_def
        slot_key_def str_time_slot_def str_int_def str_nat.simps digit_char_def Let_def defs)
  from find_all_conflicts_records_each_double_booking
         [of monday_classes 3 "(''T001'', ''Monday'', 1)"] t
  have t': "length (teacher_conflicts (find_all_conflicts monday_classes)) = 3 - 1" by blast
  from find_all_conflicts_records_each_double_booking
         [of monday_classes 1 "(''R001'', ''Monday'', 1)"] r
  have r': "length (room_conflicts (find_all_conflicts monday_classes)) = 1 - 1" by blast
  from find_all_conflicts_records_each_double_booking
         [of monday_classes 2 "(''S001'', ''Monday'', 1)"] s
  have s': "length (section_conflicts (find_all_conflicts monday_classes)) = 2 - 1" by blast
  show ?thesis by (intro conjI t r s e t' r' s')
qed

section \<open>The backtracking search\<close>

declare backtrack_schedule.simps [simp del]

lemma failure_restores:
  "\<not> fst (backtrack_schedule requests index rooms all_slots max_attempts st)
     \<Longrightarrow> assignments (snd (backtrack_schedule requests index rooms all_slots max_attempts st))
         = assignments st"
  "\<not> fst (try_assignments requests index rooms all_slots max_attempts cands st)
     \<Longrightarrow> assignments (snd (try_assignments requests index rooms all_slots max_attempts cands st))
         = assignments st"
proof (induction requests index rooms all_slots max_attempts st
         and requests index rooms all_slots max_attempts cands st
       rule: backtrack_schedule_try_assignments.induct)
  case (1 requests index rooms all_slots max_attempts st)
  then show ?case by (auto simp add: backtrack_schedule.simps split: if_splits)
next
  case (2 requests index rooms all_slots max_attempts st)
  then show ?case by simp
next
  case (3 requests index rooms all_slots max_attempts a rest st)
  then show ?case by (auto simp add: Let_def split: if_splits)
qed

lemma success_is_built:
  "validator_built (assignments st)
     \<Longrightarrow> fst (backtrack_schedule requests index rooms all_slots max_attempts st)
     \<Longrightarrow> validator_built
           (assignments (snd (backtrack_schedule requests index rooms all_slots max_attempts st)))"
  "validator_built (assignments st)
     \<Longrightarrow> fst (try_assignments requests index rooms all_slots max_attempts cands st)
     \<Longrightarrow> validator_built
           (assignments (snd (try_assignments requests index rooms all_slots max_attempts cands st)))"
proof (induction requests index rooms all_slots max_attempts st
         and requests index rooms all_slots max_attempts cands st
       rule: backtrack_schedule_try_assignments.induct)
  case (1 requests index rooms all_slots max_attempts st)
  then show ?case by (auto simp add: backtrack_schedule.simps split: if_splits)
next
  case (2 requests index rooms all_slots max_attempts st)
  then show ?case by simp
next
  case (3 requests index rooms all_slots max_attempts a rest st)
  show ?case
  proof (cases "fst (validate_assignment a (assignments st))")
    case False
    with 3 show ?thesis by simp
  next
    case True
    let ?r = "backtrack_schedule requests (index + 1) rooms all_slots max_attempts
                (st\<lparr>assignments := assignments st @ [a]\<rparr>)"
    have b: "validator_built (assignments (st\<lparr>assignments := assignments st @ [a]\<rparr>))"
      using "3.prems"(1) True by (simp add: validator_built.append)
    show ?thesis
    proof (cases "fst ?r")
      case t: True
      then show ?thesis using True "3.IH"(1) [OF True b] by (simp add: Let_def)
    next
      case f: False
      have "assignments (snd ?r) = assignments st @ [a]"
        using failure_restores(1) [OF f] by simp
      then have "validator_built (assignments ((snd ?r)\<lparr>assignments := butlast (assignments (snd ?r)),
                            backtracks := backtracks (snd ?r) + 1\<rparr>))"
        using "3.prems"(1) by simp
      from "3.IH"(2) [OF True refl f this] "3.prems"(2) True f
      show ?thesis by (simp add: Let_def)
    qed
  qed
qed

lemma attempts_bounds:
  "attempts st \<le> attempts (snd (backtrack_schedule requests index rooms all_slots max_attempts st))
   \<and> attempts (snd (backtrack_schedule requests index rooms all_slots max_attempts st))
       \<le> max (attempts st) max_attempts"
  "attempts st \<le> attempts (snd (try_assignments requests index rooms all_slots max_attempts cands st))
   \<and> attempts (snd (try_assignments requests index rooms all_slots max_attempts cands st))
       \<le> max (attempts st) max_attempts"
proof (induction requests index rooms all_slots max_attempts st
         and requests index rooms all_slots max_attempts cands st
       rule: backtrack_schedule_try_assignments.induct)
  case (1 requests index rooms all_slots max_attempts st)
  then show ?case by (auto simp add: backtrack_schedule.simps split: if_splits)
next
  case (2 requests index rooms all_slots max_attempts st)
  then show ?case by simp
next
  case (3 requests index rooms all_slots max_attempts a rest st)
  show ?case
  proof (cases "fst (validate_assignment a (assignments st))")
    case False
    with 3 show ?thesis by simp
  next
    case True
    let ?r = "backtrack_schedule requests (index + 1) rooms all_slots max_attempts
                (st\<lparr>assignments := assignments st @ [a]\<rparr>)"
    note r = "3.IH"(1) [OF True]
    show ?thesis
    proof (cases "fst ?r")
      case t: True
      then show ?thesis using True r by (simp add: Let_def)
    next
      case f: False
      from "3.IH"(2) [OF True refl f] r True f
      show ?thesis by (simp add: Let_def; linarith)
    qed
  qed
qed

lemma success_length:
  "fst (backtrack_schedule requests index rooms all_slots max_attempts st)
     \<Longrightarrow> length (assignments (snd (backtrack_schedule requests index rooms all_slots
                                      max_attempts st)))
         = length (assignments st) + (length requests - index)"
  "fst (try_assignments requests index rooms all_slots max_attempts cands st)
     \<Longrightarrow> index < length requests
     \<Longrightarrow> length (assignments (snd (try_assignments requests index rooms all_slots
                                      max_attempts cands st)))
         = length (assignments st) + (length requests - index)"
proof (induction requests index rooms all_slots max_attempts st
         and requests index rooms all_slots max_attempts cands st
       rule: backtrack_schedule_try_assignments.induct)
  case (1 requests index rooms all_slots max_attempts st)
  then show ?case by (auto simp add: backtrack_schedule.simps split: if_splits)
next
  case (2 requests index rooms all_slots max_attempts st)
  then show ?case by simp
next
  case (3 requests index rooms all_slots max_attempts a rest st)
  show ?case
  proof (cases "fst (validate_assignment a (assignments st))")
    case False
    with 3 show ?thesis by simp
  next
    case True
    let ?r = "backtrack_schedule requests (index + 1) rooms all_slots max_attempts
                (st\<lparr>assignments := assignments st @ [a]\<rparr>)"
    show ?thesis
    proof (cases "fst ?r")
      case t: True
      from "3.IH"(1) [OF True t] "3.prems"(2) True t
      show ?thesis by (simp add: Let_def)
    next
      case f: False
      have "assignments (snd ?r) = assignments st @ [a]"
        using failure_restores(1) [OF f] by simp
      with "3.IH"(2) [OF True refl f] "3.prems" True f
      show ?thesis by (simp add: Let_def)
    qed
  qed
qed

lemma exhausted_loop_fails:
  "max_attempts \<le> attempts st \<Longrightarrow> index + 1 < length requests
   \<Longrightarrow> \<not> fst (try_assignments requests index rooms all_slots max_attempts cands st)
       \<and> attempts (snd (try_assignments requests index rooms all_slots max_attempts cands st))
           = attempts st"
proof (induction cands arbitrary: st)
  case Nil
  show ?case by simp
next
  case (Cons a rest)
  have "backtrack_schedule requests (index + 1) rooms all_slots max_attempts
          (st\<lparr>assignments := assignments st @ [a]\<rparr>) = (False, st\<lparr>assignments := assignments st @ [a]\<rparr>)"
    using Cons.prems by (simp add: backtrack_schedule.simps)
  then show ?case using Cons by (simp add: Let_def)
qed

subsection \<open>The counter counts the visits\<close>

declare backtrack_visits.simps [simp del]

lemma attempts_count_visits:
  "attempts (snd (backtrack_schedule requests index rooms all_slots max_attempts st))
     = attempts st + int (length (backtrack_visits requests index rooms all_slots max_attempts st))"
  "attempts (snd (try_assignments requests index rooms all_slots max_attempts cands st))
     = attempts st + int (length (try_visits requests index rooms all_slots max_attempts cands st))"
proof (induction requests index rooms all_slots max_attempts st
         and requests index rooms all_slots max_attempts cands st
       rule: backtrack_schedule_try_assignments.induct)
  case (1 requests index rooms all_slots max_attempts st)
  then show ?case
    by (auto simp add: backtrack_schedule.simps backtrack_visits.simps split: if_splits)
next
  case (2 requests index rooms all_slots max_attempts st)
  then show ?case by simp
next
  case (3 requests index rooms all_slots max_attempts a rest st)
  show ?case
  proof (cases "fst (validate_assignment a (assignments st))")
    case False
    with 3 show ?thesis by simp
  next
    case True
    let ?r = "backtrack_schedule requests (index + 1) rooms all_slots max_attempts
                (st\<lparr>assignments := assignments st @ [a]\<rparr>)"
    note r = "3.IH"(1) [OF True]
    show ?thesis
    proof (cases "fst ?r")
      case t: True
      then show ?thesis using True r by (simp add: Let_def)
    next
      case f: False
      from "3.IH"(2) [OF True refl f] r True f
      show ?thesis by (simp add: Let_def)
    qed
  qed
qed

lemma visits_in_range:
  "\<forall>i\<in>set (backtrack_visits requests index rooms all_slots max_attempts st).
     index \<le> i \<and> i < length requests"
  "index < length requests \<Longrightarrow>
   \<forall>i\<in>set (try_visits requests index rooms all_slots max_attempts cands st).
     index < i \<and> i < length requests"
proof (induction requests index rooms all_slots max_attempts st
         and requests index rooms all_slots max_attempts cands st
       rule: backtrack_visits_try_visits.induct)
  case (1 requests index rooms all_slots max_attempts st)
  then show ?case
    by (fastforce simp add: backtrack_visits.simps split: if_splits)
next
  case (2 requests index rooms all_slots max_attempts st)
  then show ?case by simp
next
  case (3 requests index rooms all_slots max_attempts a rest st)
  then show ?case by (fastforce simp add: Let_def split: if_splits)
qed

lemma visits_within_budget:
  "int (length (backtrack_visits requests index rooms all_slots max_attempts st))
     \<le> max 0 (max_attempts - attempts st)"
  using attempts_count_visits(1) [of requests index rooms all_slots max_attempts st]
    attempts_bounds(1) [of st requests index rooms all_slots max_attempts]
  by linarith

subsection \<open>Lists built through the validator satisfy the invariants\<close>

lemma clash_sym:
  "teacher_clash a b = teacher_clash b a"
  "room_clash a b = room_clash b a"
  "section_clash a b = section_clash b a"
  by (auto simp add: teacher_clash_def room_clash_def section_clash_def teacher_eq_def
      room_eq_def section_eq_def time_slot_eq_def)

lemma built_pairs:
  "validator_built L \<Longrightarrow> i < j \<Longrightarrow> j < length L
   \<Longrightarrow> \<not> teacher_clash (L ! i) (L ! j) \<and> \<not> room_clash (L ! i) (L ! j)
       \<and> \<not> section_clash (L ! i) (L ! j)"
proof (induction arbitrary: i j rule: validator_built.induct)
  case empty
  then show ?case by simp
next
  case (append L a)
  show ?case
  proof (cases "j < length L")
    case True
    with append.IH [of i j] append.prems show ?thesis by (simp add: nth_append)
  next
    case False
    then have j: "j = length L" using append.prems by simp
    then have i: "i < length L" using append.prems by simp
    then have "L ! i \<in> set L" by simp
    with append.hyps(2) show ?thesis unfolding validate_ok_iff using i j
      by (simp add: nth_append)
  qed
qed

lemma built_each:
  "validator_built L \<Longrightarrow> a \<in> set L
   \<Longrightarrow> student_count (a_section a) \<le> capacity (a_room a)
       \<and> is_available (a_teacher a) (a_time_slot a)
       \<and> (course_type (a_course a) = ''lab'' \<longrightarrow> room_type (a_room a) = ''lab'')"
  by (induction rule: validator_built.induct) (auto simp add: validate_ok_iff)

lemma built_invariants: "validator_built L \<Longrightarrow> hard_invariants L"
proof -
  assume b: "validator_built L"
  have "\<not> teacher_clash (L ! i) (L ! j) \<and> \<not> room_clash (L ! i) (L ! j)
          \<and> \<not> section_clash (L ! i) (L ! j)"
    if "i < length L" "j < length L" "i \<noteq> j" for i j
  proof (cases "i < j")
    case True
    then show ?thesis using built_pairs [OF b True] that by simp
  next
    case False
    then have "j < i" using that by simp
    from built_pairs [OF b this] that show ?thesis using clash_sym by blast
  qed
  then show ?thesis unfolding hard_invariants_def using built_each [OF b] by blast
qed

subsection \<open>The whole run\<close>

lemma generate_unfold:
  "generate config courses sections teachers rooms ca g =
     (let r = backtrack_schedule
                (prioritize_requests (fst (build_scheduling_requests courses sections teachers ca)))
                0 rooms (get_all_time_slots config) 10000 (initial_state g)
      in (if fst r then Some (assignments (snd r)) else None, snd r,
          snd (build_scheduling_requests courses sections teachers ca)))"
  by (simp add: generate_def schedule_requests_def Let_def)

lemma generate_some_built:
  assumes "fst (generate config courses sections teachers rooms ca g) = Some L"
  shows "validator_built L"
    and "L = assignments (fst (snd (generate config courses sections teachers rooms ca g)))"
    and "length L =
           length (prioritize_requests (fst (build_scheduling_requests courses sections teachers ca)))"
proof -
  let ?r = "backtrack_schedule
                (prioritize_requests (fst (build_scheduling_requests courses sections teachers ca)))
                0 rooms (get_all_time_slots config) 10000 (initial_state g)"
  from assms have ok: "fst ?r" and L: "L = assignments (snd ?r)"
    by (auto simp add: generate_unfold Let_def split: if_splits)
  have "validator_built (assignments (initial_state g))"
    by (simp add: initial_state_def validator_built.empty)
  from success_is_built(1) [OF this ok] show "validator_built L" using L by simp
  show "L = assignments (fst (snd (generate config courses sections teachers rooms ca g)))"
    using L ok by (simp add: generate_unfold Let_def)
  show "length L =
           length (prioritize_requests (fst (build_scheduling_requests courses sections teachers ca)))"
    using success_length(1) [OF ok] L by (simp add: initial_state_def)
qed

lemma generate_none:
  assumes "fst (generate config courses sections teachers rooms ca g) = None"
  shows "assignments (fst (snd (generate config courses sections teachers rooms ca g))) = []"
proof -
  let ?r = "backtrack_schedule
                (prioritize_requests (fst (build_scheduling_requests courses sections teachers ca)))
                0 rooms (get_all_time_slots config) 10000 (initial_state g)"
  from assms have f: "\<not> fst ?r"
    by (auto simp add: generate_unfold Let_def split: if_splits)
  from failure_restores(1) [OF f] show ?thesis
    using f by (simp add: generate_unfold Let_def initial_state_def)
qed

lemmas example_defs = cs101_def cs102_def cs104_def ma101_def cs_a_def cs_b_def dr_sharma_def
  room_101_def room_105_def lab_201_def monday_1_def tuesday_1_def

lemmas run_defs = backtrack_schedule.simps initial_state_def Let_def
  get_possible_assignments_def filter_suitable_rooms_def filter_available_slots_def
  shuffle_def randbelow_def is_available_def validate_ok_iff candidate_of_def
  build_scheduling_requests_def build_entry_def course_dict_def section_dict_def
  teacher_dict_def prioritize_requests_def priority_key_def get_all_time_slots_def
  generate_def schedule_requests_def
  teacher_clash_def room_clash_def section_clash_def teacher_eq_def room_eq_def section_eq_def
  time_slot_eq_def zero_rng_def one_rng_def

subsection \<open>Example runs\<close>

lemma run_two_slots:
  "fst (generate two_slot_config [cs101, cs102] [cs_a] [dr_sharma] [room_101] double_mapping zero_rng)
     = Some [candidate_of theory_request room_101 tuesday_1,
             candidate_of algorithms_request room_101 monday_1]"
  by (simp add: run_defs example_defs two_slot_config_def double_mapping_def theory_request_def
      algorithms_request_def)

lemma run_one_slot:
  "generate one_slot_config [cs101, cs102] [cs_a] [dr_sharma] [room_101] double_mapping zero_rng
     = (None, \<lparr>assignments = [], attempts = 2, backtracks = 1, conflicts_resolved = 0,
               rng_state = zero_rng\<rparr>, [])"
  by (simp add: run_defs example_defs one_slot_config_def double_mapping_def theory_request_def
      algorithms_request_def)

lemma run_small_room:
  "generate one_slot_config [cs101] [cs_a] [dr_sharma] [room_105] single_mapping zero_rng
     = (None, \<lparr>assignments = [], attempts = 1, backtracks = 0, conflicts_resolved = 0,
               rng_state = zero_rng\<rparr>, [])"
  by (simp add: run_defs example_defs one_slot_config_def single_mapping_def theory_request_def)

lemma run_budget_one:
  "backtrack_schedule [theory_request] 0 [room_101] [monday_1] 1 (initial_state zero_rng)
     = (True, spent_state)"
  "backtrack_schedule [theory_request] 1 [room_101] [monday_1] 1 spent_state = (True, spent_state)"
  by (simp_all add: run_defs example_defs theory_request_def spent_state_def)

lemma run_budget_two:
  "backtrack_schedule [theory_request, patel_request] 0 [room_101] [monday_1, tuesday_1] 2
     (initial_state zero_rng)
   = (False, \<lparr>assignments = [], attempts = 2, backtracks = 2, conflicts_resolved = 0,
               rng_state = zero_rng\<rparr>)"
  "backtrack_visits [theory_request, patel_request] 0 [room_101] [monday_1, tuesday_1] 2
     (initial_state zero_rng) = [0, 1]"
  by (simp_all add: run_defs example_defs theory_request_def patel_request_def dr_patel_def
      backtrack_visits.simps)

lemma run_budget_three:
  "backtrack_schedule [theory_request, patel_request] 0 [room_101] [monday_1, tuesday_1] 3
     (initial_state zero_rng)
   = (True, \<lparr>assignments = [candidate_of theory_request room_101 monday_1,
                              candidate_of patel_request room_101 tuesday_1],
              attempts = 3, backtracks = 1, conflicts_resolved = 0,
               rng_state = zero_rng\<rparr>)"
  "backtrack_visits [theory_request, patel_request] 0 [room_101] [monday_1, tuesday_1] 3
     (initial_state zero_rng) = [0, 1, 1]"
  by (simp_all add: run_defs example_defs theory_request_def patel_request_def dr_patel_def
      backtrack_visits.simps)

lemma run_seed_zero:
  "main_generate library_seed zero_rng (Some 0) two_slot_config [cs101] [cs_a] [dr_sharma]
     [room_101] single_mapping = Some [candidate_of theory_request room_101 tuesday_1]"
  "main_generate library_seed one_rng (Some 0) two_slot_config [cs101] [cs_a] [dr_sharma]
     [room_101] single_mapping = Some [candidate_of theory_request room_101 monday_1]"
  by (simp_all add: main_generate_def seeded_rng_def run_defs example_defs two_slot_config_def
      single_mapping_def theory_request_def)

subsection \<open>Invariant preservation\<close>

text \<open>
  C1. Whenever \<open>generate\<close> returns an assignment list, no two assignments of the list
  share teacher and slot, room and slot, or section and slot, and every assignment has a
  room with \<open>capacity \<ge> student_count\<close>, a teacher available at the slot, and a lab room
  if its course is a lab.
\<close>

theorem generate_result_satisfies_hard_invariants:
  assumes "fst (generate config courses sections teachers rooms ca g) = Some L"
  shows "(\<forall>i<length L. \<forall>j<length L. i \<noteq> j \<longrightarrow>
            \<not> teacher_clash (L ! i) (L ! j) \<and> \<not> room_clash (L ! i) (L ! j)
            \<and> \<not> section_clash (L ! i) (L ! j))
         \<and> (\<forall>a\<in>set L. capacity (a_room a) \<ge> student_count (a_section a)
               \<and> is_available (a_teacher a) (a_time_slot a)
               \<and> (course_type (a_course a) = ''lab'' \<longrightarrow> room_type (a_room a) = ''lab''))"
  using built_invariants [OF generate_some_built(1) [OF assms]]
  unfolding hard_invariants_def .

theorem generate_result_satisfies_hard_invariants_witness:
  "fst (generate two_slot_config [cs101, cs102] [cs_a] [dr_sharma] [room_101] double_mapping zero_rng)
     = Some [candidate_of theory_request room_101 tuesday_1,
             candidate_of algorithms_request room_101 monday_1]
   \<and> \<not> teacher_clash (candidate_of theory_request room_101 tuesday_1)
                      (candidate_of algorithms_request room_101 monday_1)
   \<and> \<not> room_clash (candidate_of theory_request room_101 tuesday_1)
                   (candidate_of algorithms_request room_101 monday_1)
   \<and> \<not> section_clash (candidate_of theory_request room_101 tuesday_1)
                      (candidate_of algorithms_request room_101 monday_1)
   \<and> capacity (a_room (candidate_of theory_request room_101 tuesday_1))
        \<ge> student_count (a_section (candidate_of theory_request room_101 tuesday_1))
   \<and> is_available (a_teacher (candidate_of theory_request room_101 tuesday_1))
        (a_time_slot (candidate_of theory_request room_101 tuesday_1))"
proof -
  let ?L = "[candidate_of theory_request room_101 tuesday_1,
             candidate_of algorithms_request room_101 monday_1]"
  note inv = generate_result_satisfies_hard_invariants [OF run_two_slots]
  from conjunct1 [OF inv, rule_format, of 0 1]
  have pair: "\<not> teacher_clash (?L ! 0) (?L ! 1) \<and> \<not> room_clash (?L ! 0) (?L ! 1)
            \<and> \<not> section_clash (?L ! 0) (?L ! 1)"
    by simp
  have "candidate_of theory_request room_101 tuesday_1 \<in> set ?L" by simp
  with conjunct2 [OF inv]
  have each: "capacity (a_room (candidate_of theory_request room_101 tuesday_1))
        \<ge> student_count (a_section (candidate_of theory_request room_101 tuesday_1))
   \<and> is_available (a_teacher (candidate_of theory_request room_101 tuesday_1))
        (a_time_slot (candidate_of theory_request room_101 tuesday_1))"
    by blast
  from pair each run_two_slots show ?thesis by simp
qed

subsection \<open>Attempt budget\<close>

text \<open>
  C6, as stated, fails: the test for the end of the request list comes before the test
  of the budget. With one request and a budget of one unit, the visit of index 0 spends
  the unit and commits; the call at index 1 finds the counter at the budget and still
  returns success, and so does the whole search.
\<close>

theorem search_succeeds_with_budget_spent:
  "backtrack_schedule [theory_request] 0 [room_101] [monday_1] 1 (initial_state zero_rng)
     = (True, spent_state)
   \<and> attempts spent_state = 1
   \<and> backtrack_schedule [theory_request] 1 [room_101] [monday_1] 1 spent_state
       = (True, spent_state)"
  using run_budget_one by (simp add: spent_state_def)

text \<open>
  C6, amended. The counter is one field of the state threaded through the whole
  recursion and starts at 0 in \<open>generate\<close>. It counts the visits: after a call of the
  search, and after the loop over the candidates of a request, the counter is its value
  at entry plus the number of request indices visited below, in kept and in undone
  branches alike, so a unit spent in a branch that is undone stays spent and nothing
  resets the counter between requests. The number of visits of a whole search is at most
  \<open>max_attempts\<close> minus the counter at entry (or 0). A call at an index past the last
  request returns success and leaves the state alone. A call at an index of a request
  with the counter at or above \<open>max_attempts\<close> returns failure and leaves the state
  alone; otherwise it adds exactly one to the counter before trying the candidates.
  With the counter at or above \<open>max_attempts\<close>, the loop over the candidates of any
  request but the last fails without changing the counter. The counter never decreases
  and never exceeds the larger of its initial value and \<open>max_attempts\<close>; after
  \<open>generate\<close> it is the number of visits of the run, between 0 and 10000.
\<close>

theorem attempt_budget_is_shared:
  "attempts (snd (backtrack_schedule requests index rooms all_slots max_attempts st))
     = attempts st
       + int (length (backtrack_visits requests index rooms all_slots max_attempts st))
   \<and> attempts (snd (try_assignments requests index rooms all_slots max_attempts cands st))
       = attempts st
         + int (length (try_visits requests index rooms all_slots max_attempts cands st))
   \<and> (\<forall>i\<in>set (backtrack_visits requests index rooms all_slots max_attempts st).
         index \<le> i \<and> i < length requests)
   \<and> int (length (backtrack_visits requests index rooms all_slots max_attempts st))
        \<le> max 0 (max_attempts - attempts st)
   \<and> (length requests \<le> index \<longrightarrow>
      backtrack_schedule requests index rooms all_slots max_attempts st = (True, st))
   \<and> (index < length requests \<and> max_attempts \<le> attempts st \<longrightarrow>
        backtrack_schedule requests index rooms all_slots max_attempts st = (False, st))
   \<and> (index < length requests \<and> attempts st < max_attempts \<longrightarrow>
        backtrack_schedule requests index rooms all_slots max_attempts st =
          try_assignments requests index rooms all_slots max_attempts
            (fst (get_possible_assignments (requests ! index) rooms all_slots (rng_state st)))
            (st\<lparr>attempts := attempts st + 1,
                rng_state := snd (get_possible_assignments (requests ! index) rooms all_slots
                                    (rng_state st))\<rparr>))
   \<and> (index + 1 < length requests \<and> max_attempts \<le> attempts st \<longrightarrow>
        \<not> fst (try_assignments requests index rooms all_slots max_attempts cands st)
        \<and> attempts (snd (try_assignments requests index rooms all_slots max_attempts cands st))
            = attempts st)
   \<and> attempts st
        \<le> attempts (snd (backtrack_schedule requests index rooms all_slots max_attempts st))
   \<and> attempts (snd (backtrack_schedule requests index rooms all_slots max_attempts st))
        \<le> max (attempts st) max_attempts
   \<and> attempts (initial_state g) = 0
   \<and> attempts (fst (snd (generate config courses sections teachers rooms ca g))) =
        int (length (backtrack_visits
               (prioritize_requests (fst (build_scheduling_requests courses sections teachers ca)))
               0 rooms (get_all_time_slots config) 10000 (initial_state g)))
   \<and> 0 \<le> attempts (fst (snd (generate config courses sections teachers rooms ca g)))
   \<and> attempts (fst (snd (generate config courses sections teachers rooms ca g))) \<le> 10000"
proof -
  let ?reqs = "prioritize_requests (fst (build_scheduling_requests courses sections teachers ca))"
  let ?r = "backtrack_schedule ?reqs 0 rooms (get_all_time_slots config) 10000 (initial_state g)"
  have g: "attempts (fst (snd (generate config courses sections teachers rooms ca g)))
             = attempts (snd ?r)"
    by (simp add: generate_unfold Let_def)
  have "attempts (initial_state g) \<le> attempts (snd ?r)
        \<and> attempts (snd ?r) \<le> max (attempts (initial_state g)) 10000"
    by (rule attempts_bounds(1))
  then have b: "0 \<le> attempts (snd ?r) \<and> attempts (snd ?r) \<le> 10000"
    by (simp add: initial_state_def)
  have v: "attempts (snd ?r) =
        int (length (backtrack_visits ?reqs 0 rooms (get_all_time_slots config) 10000
                       (initial_state g)))"
    using attempts_count_visits(1)
            [of ?reqs 0 rooms "get_all_time_slots config" 10000 "initial_state g"]
    by (simp add: initial_state_def)
  have first: "attempts (snd (backtrack_schedule requests index rooms all_slots max_attempts st))
     = attempts st
       + int (length (backtrack_visits requests index rooms all_slots max_attempts st))"
    by (rule attempts_count_visits(1))
  have second: "attempts (snd (try_assignments requests index rooms all_slots max_attempts cands st))
       = attempts st
         + int (length (try_visits requests index rooms all_slots max_attempts cands st))"
    by (rule attempts_count_visits(2))
  have third: "\<forall>i\<in>set (backtrack_visits requests index rooms all_slots max_attempts st).
         index \<le> i \<and> i < length requests"
    by (rule visits_in_range(1))
  have fourth: "int (length (backtrack_visits requests index rooms all_slots max_attempts st))
        \<le> max 0 (max_attempts - attempts st)"
    by (rule visits_within_budget)
  have rest: "(length requests \<le> index \<longrightarrow>
      backtrack_schedule requests index rooms all_slots max_attempts st = (True, st))
   \<and> (index < length requests \<and> max_attempts \<le> attempts st \<longrightarrow>
        backtrack_schedule requests index rooms all_slots max_attempts st = (False, st))
   \<and> (index < length requests \<and> attempts st < max_attempts \<longrightarrow>
        backtrack_schedule requests index rooms all_slots max_attempts st =
          try_assignments requests index rooms all_slots max_attempts
            (fst (get_possible_assignments (requests ! index) rooms all_slots (rng_state st)))
            (st\<lparr>attempts := attempts st + 1,
                rng_state := snd (get_possible_assignments (requests ! index) rooms all_slots
                                    (rng_state st))\<rparr>))
   \<and> (index + 1 < length requests \<and> max_attempts \<le> attempts st \<longrightarrow>
        \<not> fst (try_assignments requests index rooms all_slots max_attempts cands st)
        \<and> attempts (snd (try_assignments requests index rooms all_slots max_attempts cands st))
            = attempts st)
   \<and> attempts st
        \<le> attempts (snd (backtrack_schedule requests index rooms all_slots max_attempts st))
   \<and> attempts (snd (backtrack_schedule requests index rooms all_slots max_attempts st))
        \<le> max (attempts st) max_attempts
   \<and> attempts (initial_state g) = 0"
    using attempts_bounds(1) [of st requests index rooms all_slots max_attempts]
      exhausted_loop_fails [of max_attempts st index requests rooms all_slots cands]
    by (simp add: backtrack_schedule.simps initial_state_def)
  have last: "attempts (fst (snd (generate config courses sections teachers rooms ca g))) =
        int (length (backtrack_visits ?reqs 0 rooms (get_all_time_slots config) 10000
                       (initial_state g)))
   \<and> 0 \<le> attempts (fst (snd (generate config courses sections teachers rooms ca g)))
   \<and> attempts (fst (snd (generate config courses sections teachers rooms ca g))) \<le> 10000"
    unfolding g using b v by simp
  from first second third fourth rest last show ?thesis by blast
qed

theorem attempt_budget_is_shared_witness:
  "backtrack_schedule [theory_request, patel_request] 0 [room_101] [monday_1, tuesday_1] 2
     (initial_state zero_rng)
   = (False, \<lparr>assignments = [], attempts = 2, backtracks = 2, conflicts_resolved = 0,
               rng_state = zero_rng\<rparr>)
   \<and> backtrack_visits [theory_request, patel_request] 0 [room_101] [monday_1, tuesday_1] 2
       (initial_state zero_rng) = [0, 1]
   \<and> attempts (snd (backtrack_schedule [theory_request, patel_request] 0 [room_101]
                       [monday_1, tuesday_1] 2 (initial_state zero_rng)))
       = attempts (initial_state zero_rng)
         + int (length (backtrack_visits [theory_request, patel_request] 0 [room_101]
                          [monday_1, tuesday_1] 2 (initial_state zero_rng)))
   \<and> fst (backtrack_schedule [theory_request, patel_request] 0 [room_101] [monday_1, tuesday_1] 3
            (initial_state zero_rng))
   \<and> backtrack_visits [theory_request, patel_request] 0 [room_101] [monday_1, tuesday_1] 3
       (initial_state zero_rng) = [0, 1, 1]
   \<and> 1 \<in> set (backtrack_visits [theory_request, patel_request] 0 [room_101]
                 [monday_1, tuesday_1] 3 (initial_state zero_rng))
   \<and> (0::nat) \<le> 1 \<and> 1 < length [theory_request, patel_request]
   \<and> length [theory_request] \<le> 1
   \<and> backtrack_schedule [theory_request] 1 [room_101] [monday_1] 1 spent_state
       = (True, spent_state)
   \<and> 1 < length [theory_request, algorithms_request] \<and> 1 \<le> attempts spent_state
   \<and> backtrack_schedule [theory_request, algorithms_request] 1 [room_101] [monday_1] 1 spent_state
       = (False, spent_state)
   \<and> 0 < length [theory_request] \<and> attempts (initial_state zero_rng) < 1
   \<and> backtrack_schedule [theory_request] 0 [room_101] [monday_1] 1 (initial_state zero_rng) =
          try_assignments [theory_request] 0 [room_101] [monday_1] 1
            (fst (get_possible_assignments ([theory_request] ! 0) [room_101] [monday_1]
                    (rng_state (initial_state zero_rng))))
            ((initial_state zero_rng)\<lparr>attempts := attempts (initial_state zero_rng) + 1,
                rng_state := snd (get_possible_assignments ([theory_request] ! 0) [room_101]
                                    [monday_1] (rng_state (initial_state zero_rng)))\<rparr>)
   \<and> attempts (snd (backtrack_schedule [theory_request] 0 [room_101] [monday_1] 1
                       (initial_state zero_rng))) = 1
   \<and> 0 + 1 < length [theory_request, algorithms_request, algorithms_request]
   \<and> \<not> fst (try_assignments [theory_request, algorithms_request, algorithms_request] 0
               [room_101] [monday_1] 1 [candidate_of theory_request room_101 tuesday_1] spent_state)"
proof -
  have a: "attempts spent_state = 1" by (simp add: spent_state_def)
  have i: "attempts (initial_state zero_rng) = 0" by (simp add: initial_state_def)
  have h1: "length [theory_request] \<le> 1" by simp
  have h2: "1 < length [theory_request, algorithms_request] \<and> 1 \<le> attempts spent_state"
    using a by simp
  have h3: "0 < length [theory_request] \<and> attempts (initial_state zero_rng) < 1"
    using i by simp
  have h4: "0 + 1 < length [theory_request, algorithms_request, algorithms_request]
            \<and> 1 \<le> attempts spent_state"
    using a by simp
  have m: "1 \<in> set (backtrack_visits [theory_request, patel_request] 0 [room_101]
                 [monday_1, tuesday_1] 3 (initial_state zero_rng))"
    by (simp add: run_budget_three(2))
  note c0 = attempt_budget_is_shared
      [where requests = "[theory_request, patel_request]" and index = 0 and rooms = "[room_101]"
         and all_slots = "[monday_1, tuesday_1]" and max_attempts = 2
         and st = "initial_state zero_rng",
       THEN conjunct1]
  note r0 = attempt_budget_is_shared
      [where requests = "[theory_request, patel_request]" and index = 0 and rooms = "[room_101]"
         and all_slots = "[monday_1, tuesday_1]" and max_attempts = 3
         and st = "initial_state zero_rng",
       THEN conjunct2, THEN conjunct2, THEN conjunct1, rule_format, OF m]
  note c1 = attempt_budget_is_shared
      [where requests = "[theory_request]" and index = 1 and rooms = "[room_101]"
         and all_slots = "[monday_1]" and max_attempts = 1 and st = spent_state,
       THEN conjunct2, THEN conjunct2, THEN conjunct2, THEN conjunct2,
       THEN conjunct1, rule_format, OF h1]
  note c2 = attempt_budget_is_shared
      [where requests = "[theory_request, algorithms_request]" and index = 1
         and rooms = "[room_101]" and all_slots = "[monday_1]" and max_attempts = 1
         and st = spent_state,
       THEN conjunct2, THEN conjunct2, THEN conjunct2, THEN conjunct2,
       THEN conjunct2, THEN conjunct1, rule_format, OF h2]
  note c3 = attempt_budget_is_shared
      [where requests = "[theory_request]" and index = 0 and rooms = "[room_101]"
         and all_slots = "[monday_1]" and max_attempts = 1 and st = "initial_state zero_rng",
       THEN conjunct2, THEN conjunct2, THEN conjunct2, THEN conjunct2,
       THEN conjunct2, THEN conjunct2, THEN conjunct1, rule_format, OF h3]
  note c4 = attempt_budget_is_shared
      [where requests = "[theory_request, algorithms_request, algorithms_request]" and index = 0
         and rooms = "[room_101]" and all_slots = "[monday_1]" and max_attempts = 1
         and st = spent_state and cands = "[candidate_of theory_request room_101 tuesday_1]",
       THEN conjunct2, THEN conjunct2, THEN conjunct2, THEN conjunct2,
       THEN conjunct2, THEN conjunct2, THEN conjunct2, THEN conjunct1, rule_format, OF h4]
  have e: "attempts (snd (backtrack_schedule [theory_request] 0 [room_101] [monday_1] 1
                       (initial_state zero_rng))) = 1"
    using run_budget_one(1) a by simp
  have s3: "fst (backtrack_schedule [theory_request, patel_request] 0 [room_101]
                   [monday_1, tuesday_1] 3 (initial_state zero_rng))"
    by (simp add: run_budget_three(1))
  show ?thesis
    by (intro conjI run_budget_two(1) run_budget_two(2) c0 s3 run_budget_three(2) m
        conjunct1 [OF r0] conjunct2 [OF r0]
        h1 c1 conjunct1 [OF h2] conjunct2 [OF h2] c2 conjunct1 [OF h3]
        conjunct2 [OF h3] c3 e conjunct1 [OF h4] conjunct1 [OF c4])
qed

subsection \<open>No usable room\<close>

lemma lookup_section_in:
  "lookup_section sections sid = Some s \<Longrightarrow> s \<in> set sections"
  unfolding lookup_section_def find_Some_iff by (metis nth_mem set_rev)

lemma built_request_section:
  assumes "r \<in> set (fst (build_scheduling_requests courses sections teachers ca))"
  shows "req_section r \<in> set sections"
proof -
  from assms obtain e where "r \<in> set (entry_requests courses sections teachers e)"
    by (auto simp add: build_scheduling_requests_eq)
  then show ?thesis
    by (auto simp add: entry_requests_def lookup_section_in split: option.splits)
qed

lemma no_suitable_room_no_candidate:
  assumes "\<forall>r\<in>set rooms. capacity r < student_count (req_section req)"
  shows "fst (get_possible_assignments req rooms all_slots g) = []"
proof -
  have "set (fst (get_possible_assignments req rooms all_slots g)) = {}"
    unfolding set_possible using assms by (auto simp add: suitable_room_def)
  then show ?thesis by simp
qed

text \<open>
  C7. When request building yields at least one request and every room's capacity is
  below the student count of every section, \<open>generate\<close> returns \<open>None\<close>, the committed
  list is empty and the attempt counter is exactly 1.
\<close>

theorem no_usable_room_fails_after_one_attempt:
  assumes "fst (build_scheduling_requests courses sections teachers ca) \<noteq> []"
    and "\<forall>r\<in>set rooms. \<forall>s\<in>set sections. capacity r < student_count s"
  shows "fst (generate config courses sections teachers rooms ca g) = None
         \<and> assignments (fst (snd (generate config courses sections teachers rooms ca g))) = []
         \<and> attempts (fst (snd (generate config courses sections teachers rooms ca g))) = 1"
proof -
  let ?reqs = "prioritize_requests (fst (build_scheduling_requests courses sections teachers ca))"
  have len: "0 < length ?reqs" using assms(1) by (simp add: prioritize_requests_def)
  then have "?reqs ! 0 \<in> set ?reqs" by (rule nth_mem)
  then have "?reqs ! 0 \<in> set (fst (build_scheduling_requests courses sections teachers ca))"
    by (simp add: prioritize_requests_def)
  then have "req_section (?reqs ! 0) \<in> set sections" by (rule built_request_section)
  with assms(2) have "\<forall>r\<in>set rooms. capacity r < student_count (req_section (?reqs ! 0))"
    by blast
  then have none: "fst (get_possible_assignments (?reqs ! 0) rooms (get_all_time_slots config) g) = []"
    by (rule no_suitable_room_no_candidate)
  have "backtrack_schedule ?reqs 0 rooms (get_all_time_slots config) 10000 (initial_state g) =
          (False, (initial_state g)\<lparr>attempts := 1,
             rng_state := snd (get_possible_assignments (?reqs ! 0) rooms
                                 (get_all_time_slots config) g)\<rparr>)"
    using len by (simp add: backtrack_schedule.simps initial_state_def none)
  then show ?thesis by (simp add: generate_unfold initial_state_def)
qed

theorem no_usable_room_fails_after_one_attempt_witness:
  "fst (build_scheduling_requests [cs101] [cs_a] [dr_sharma] single_mapping) \<noteq> []
   \<and> capacity room_105 < student_count cs_a
   \<and> fst (generate one_slot_config [cs101] [cs_a] [dr_sharma] [room_105] single_mapping zero_rng)
       = None
   \<and> assignments (fst (snd (generate one_slot_config [cs101] [cs_a] [dr_sharma] [room_105]
                              single_mapping zero_rng))) = []
   \<and> attempts (fst (snd (generate one_slot_config [cs101] [cs_a] [dr_sharma] [room_105]
                           single_mapping zero_rng))) = 1"
proof -
  have b: "fst (build_scheduling_requests [cs101] [cs_a] [dr_sharma] single_mapping) \<noteq> []"
    by (simp add: build_scheduling_requests_def build_entry_def course_dict_def section_dict_def
        teacher_dict_def single_mapping_def example_defs)
  have c: "capacity room_105 < student_count cs_a"
    by (simp add: room_105_def cs_a_def)
  then have r: "\<forall>r\<in>set [room_105]. \<forall>s\<in>set [cs_a]. capacity r < student_count s"
    by simp
  from no_usable_room_fails_after_one_attempt [OF b r, of one_slot_config zero_rng] b c
  show ?thesis by blast
qed

subsection \<open>Atomic failure\<close>

text \<open>
  C8. A call of the search that returns failure leaves the committed list exactly as it
  was at entry. \<open>generate\<close> returns \<open>None\<close> exactly when the search fails, and then the
  committed list is empty; otherwise it returns a list with one assignment per request
  that satisfies the six invariants and in which the audit finds no conflict.
\<close>

theorem failure_is_atomic:
  "(\<not> fst (backtrack_schedule requests index rooms all_slots max_attempts st) \<longrightarrow>
      assignments (snd (backtrack_schedule requests index rooms all_slots max_attempts st))
        = assignments st)
   \<and> (fst (generate config courses sections teachers rooms ca g) = None \<longleftrightarrow>
        \<not> fst (schedule_requests
                 (prioritize_requests (fst (build_scheduling_requests courses sections teachers ca)))
                 rooms (get_all_time_slots config) 10000 (initial_state g)))
   \<and> (fst (generate config courses sections teachers rooms ca g) = None \<longrightarrow>
        assignments (fst (snd (generate config courses sections teachers rooms ca g))) = [])
   \<and> (fst (generate config courses sections teachers rooms ca g) = None
      \<or> (\<exists>L. fst (generate config courses sections teachers rooms ca g) = Some L
            \<and> length L = length (fst (build_scheduling_requests courses sections teachers ca))
            \<and> hard_invariants L
            \<and> count_conflicts (find_all_conflicts L) = 0))"
proof (intro conjI impI)
  assume "\<not> fst (backtrack_schedule requests index rooms all_slots max_attempts st)"
  then show "assignments (snd (backtrack_schedule requests index rooms all_slots max_attempts st))
        = assignments st"
    by (rule failure_restores(1))
next
  show "fst (generate config courses sections teachers rooms ca g) = None \<longleftrightarrow>
        \<not> fst (schedule_requests
                 (prioritize_requests (fst (build_scheduling_requests courses sections teachers ca)))
                 rooms (get_all_time_slots config) 10000 (initial_state g))"
    by (simp add: generate_def Let_def)
next
  assume "fst (generate config courses sections teachers rooms ca g) = None"
  then show "assignments (fst (snd (generate config courses sections teachers rooms ca g))) = []"
    by (rule generate_none)
next
  show "fst (generate config courses sections teachers rooms ca g) = None
      \<or> (\<exists>L. fst (generate config courses sections teachers rooms ca g) = Some L
            \<and> length L = length (fst (build_scheduling_requests courses sections teachers ca))
            \<and> hard_invariants L
            \<and> count_conflicts (find_all_conflicts L) = 0)"
  proof (cases "fst (generate config courses sections teachers rooms ca g)")
    case None
    then show ?thesis by simp
  next
    case (Some L)
    note b = generate_some_built [OF Some]
    have "length L = length (fst (build_scheduling_requests courses sections teachers ca))"
      using b(3) by (simp add: prioritize_requests_def)
    moreover have "hard_invariants L" using b(1) by (rule built_invariants)
    moreover have "count_conflicts (find_all_conflicts L) = 0"
      using b(1) by (rule validator_built_no_conflicts)
    ultimately show ?thesis using Some by simp
  qed
qed

theorem failure_is_atomic_witness:
  "\<not> fst (backtrack_schedule [theory_request, algorithms_request] 0 [room_101] [monday_1] 10000
            (initial_state zero_rng))
   \<and> assignments (snd (backtrack_schedule [theory_request, algorithms_request] 0 [room_101]
                          [monday_1] 10000 (initial_state zero_rng)))
       = assignments (initial_state zero_rng)
   \<and> fst (generate one_slot_config [cs101, cs102] [cs_a] [dr_sharma] [room_101] double_mapping
            zero_rng) = None
   \<and> assignments (fst (snd (generate one_slot_config [cs101, cs102] [cs_a] [dr_sharma] [room_101]
                              double_mapping zero_rng))) = []
   \<and> backtracks (fst (snd (generate one_slot_config [cs101, cs102] [cs_a] [dr_sharma] [room_101]
                              double_mapping zero_rng))) = 1
   \<and> fst (generate two_slot_config [cs101, cs102] [cs_a] [dr_sharma] [room_101] double_mapping
            zero_rng)
       = Some [candidate_of theory_request room_101 tuesday_1,
               candidate_of algorithms_request room_101 monday_1]
   \<and> hard_invariants [candidate_of theory_request room_101 tuesday_1,
                        candidate_of algorithms_request room_101 monday_1]
   \<and> count_conflicts (find_all_conflicts [candidate_of theory_request room_101 tuesday_1,
                                           candidate_of algorithms_request room_101 monday_1]) = 0"
proof -
  have f: "\<not> fst (backtrack_schedule [theory_request, algorithms_request] 0 [room_101] [monday_1]
                    10000 (initial_state zero_rng))"
    by (simp add: run_defs example_defs theory_request_def algorithms_request_def)
  have n: "fst (generate one_slot_config [cs101, cs102] [cs_a] [dr_sharma] [room_101]
                  double_mapping zero_rng) = None"
    by (simp add: run_one_slot)
  note a = failure_is_atomic
      [where requests = "[theory_request, algorithms_request]" and index = 0
         and rooms = "[room_101]" and all_slots = "[monday_1]" and max_attempts = 10000
         and st = "initial_state zero_rng",
       THEN conjunct1, rule_format, OF f]
  note b = failure_is_atomic
      [where config = one_slot_config and courses = "[cs101, cs102]" and sections = "[cs_a]"
         and teachers = "[dr_sharma]" and rooms = "[room_101]" and ca = double_mapping
         and g = zero_rng,
       THEN conjunct2, THEN conjunct2, THEN conjunct1, rule_format, OF n]
  have c: "backtracks (fst (snd (generate one_slot_config [cs101, cs102] [cs_a] [dr_sharma]
                              [room_101] double_mapping zero_rng))) = 1"
    by (simp add: run_one_slot)
  note d = failure_is_atomic
      [where config = two_slot_config and courses = "[cs101, cs102]" and sections = "[cs_a]"
         and teachers = "[dr_sharma]" and rooms = "[room_101]" and ca = double_mapping
         and g = zero_rng,
       THEN conjunct2, THEN conjunct2, THEN conjunct2]
  have e: "hard_invariants [candidate_of theory_request room_101 tuesday_1,
                            candidate_of algorithms_request room_101 monday_1]
     \<and> count_conflicts (find_all_conflicts [candidate_of theory_request room_101 tuesday_1,
                                             candidate_of algorithms_request room_101 monday_1]) = 0"
    using d by (simp add: run_two_slots)
  show ?thesis
    by (intro conjI f a n b c run_two_slots conjunct1 [OF e] conjunct2 [OF e])
qed

subsection \<open>Seeding\<close>

text \<open>
  With a seed other than 0 the generator state, and with it the whole run, is fixed by
  the seed: the state the generator had before does not matter.
\<close>

lemma nonzero_seed_fixes_output:
  "s \<noteq> 0 \<Longrightarrow>
   main_generate seed_fn ambient (Some s) config courses sections teachers rooms ca =
   main_generate seed_fn ambient' (Some s) config courses sections teachers rooms ca"
  by (simp add: main_generate_def seeded_rng_def)

text \<open>
  C9. With \<open>--seed 0\<close> the test \<open>if args.seed:\<close> is false and the generator is not
  seeded: two runs with the same inputs and the same seed 0 start from whatever state
  the generator has, and return different lists.
\<close>

theorem seed_zero_is_not_applied:
  "main_generate library_seed zero_rng (Some 0) two_slot_config [cs101] [cs_a] [dr_sharma]
     [room_101] single_mapping = Some [candidate_of theory_request room_101 tuesday_1]
   \<and> main_generate library_seed one_rng (Some 0) two_slot_config [cs101] [cs_a] [dr_sharma]
       [room_101] single_mapping = Some [candidate_of theory_request room_101 monday_1]
   \<and> candidate_of theory_request room_101 tuesday_1 \<noteq> candidate_of theory_request room_101 monday_1"
  using run_seed_zero by (simp add: candidate_of_def tuesday_1_def monday_1_def)

end
